theory Spec2Isabelle
  imports
    Complex_Main
    "HOL-Library.Multiset"
    "HOL-Library.Log_Nat"
    "HOL-Library.Word"
    "HOL-Library.Product_Lexorder"
begin

section \<open>Errors\<close>

text \<open>
  The exceptions that the two model files raise themselves are a \<^verbatim>\<open>ValueError\<close> with
  a message, and the \<^verbatim>\<open>KeyError\<close> of the dictionary lookup in \<^verbatim>\<open>get_battle_score\<close>. One
  constructor of \<open>message\<close> stands for each message text of the source; where the text
  is an f-string, the constructor carries the formatted value.

  \<open>OverflowError\<close> is what the \<^verbatim>\<open>sqlite3\<close> module raises when a Python integer that does
  not fit into 64 bits is bound to a statement; it is no \<^verbatim>\<open>sqlite3.Error\<close>, so no handler
  of the kitchen model catches it. The failure of a collaborator that is not part of
  the two files (\<^verbatim>\<open>get_random\<close>, a persistence function other than the one below) is
  \<open>ExternalError\<close>.
\<close>

datatype message =
    Two_combatants_must_be_prepped
      \<comment> \<open>\<^verbatim>\<open>"Two combatants must be prepped for a battle."\<close>\<close>
  | Combatant_list_is_full
      \<comment> \<open>\<^verbatim>\<open>"Combatant list is full, cannot add more combatants."\<close>\<close>
  | Price_must_be_positive
      \<comment> \<open>\<^verbatim>\<open>"Price must be a positive value."\<close>\<close>
  | Difficulty_must_be
      \<comment> \<open>\<^verbatim>\<open>"Difficulty must be 'LOW', 'MED', or 'HIGH'."\<close>\<close>
  | Has_been_deleted int
      \<comment> \<open>\<^verbatim>\<open>f"Meal with ID {meal_id} has been deleted"\<close>\<close>
  | Not_found int
      \<comment> \<open>\<^verbatim>\<open>f"Meal with ID {meal_id} not found"\<close>\<close>
  | Invalid_sort_by string
      \<comment> \<open>\<^verbatim>\<open>"Invalid sort_by parameter: %s" % sort_by\<close>\<close>
  | Invalid_result string
      \<comment> \<open>\<^verbatim>\<open>f"Invalid result: {result}. Expected 'win' or 'loss'."\<close>\<close>

datatype error =
    ValueError message
  | KeyError string
  | OverflowError
  | ExternalError

section \<open>Floating-point numbers\<close>

text \<open>
  A Python \<^verbatim>\<open>float\<close> and an SQLite \<^verbatim>\<open>REAL\<close> are IEEE 754 binary64 numbers. \<open>Finite x\<close>
  is the number whose value is the real \<open>x\<close>; the two zeros are one value, as they are
  for \<^verbatim>\<open>==\<close>. Every operation below returns a binary64 number when its arguments are
  binary64 numbers. A numeric literal of the source such as \<^verbatim>\<open>1.1\<close> is \<open>binary64 1.1\<close>,
  the binary64 number nearest to it, not \<open>Finite 1.1\<close>.
\<close>

datatype float = Finite real | PlusInfinity | MinusInfinity | NaN

text \<open>Rounding to the nearest integer, a tie to the even one.\<close>

definition round_half_even :: "real \<Rightarrow> int" where
  "round_half_even x =
     (let f = \<lfloor>x\<rfloor>; d = x - of_int f
      in if d < 1 / 2 then f else if d > 1 / 2 then f + 1 else if even f then f else f + 1)"

text \<open>
  The binary exponent of a real other than zero: \<open>2 powi exponent x \<le> \<bar>x\<bar> < 2 powi
  (exponent x + 1)\<close>, computed from the bit length of an integer.
\<close>

definition exponent :: "real \<Rightarrow> int" where
  "exponent x =
     (if \<bar>x\<bar> \<ge> 1 then bitlen \<lfloor>\<bar>x\<bar>\<rfloor> - 1 else - bitlen (\<lceil>1 / \<bar>x\<bar>\<rceil> - 1))"

text \<open>
  Rounding of a real to 53 significant bits, to the nearest with a tie to the even
  significand. Below \<open>2 powi - 1022\<close> the spacing stays \<open>2 powi - 1074\<close> (subnormal
  numbers). \<open>binary64\<close> is the rounding of IEEE 754: a result of magnitude \<open>2 ^ 1024\<close>
  or more is an infinity.
\<close>

definition nearest :: "real \<Rightarrow> real" where
  "nearest x =
     (let q = max (exponent x) (- 1022) - 52
      in of_int (round_half_even (x / 2 powi q)) * 2 powi q)"

definition binary64 :: "real \<Rightarrow> float" where
  "binary64 x =
     (if \<bar>nearest x\<bar> \<ge> 2 ^ 1024 then (if x > 0 then PlusInfinity else MinusInfinity)
      else Finite (nearest x))"

text \<open>
  The conversion of an integer, as Python makes it for \<^verbatim>\<open>float * int\<close> and SQLite for an
  \<^verbatim>\<open>INTEGER\<close> in \<^verbatim>\<open>REAL\<close> arithmetic. (Python raises where the result would be an
  infinity; the integers that Python converts here are a string length, 1, 2, 3 and
  100, and those of SQLite are within 64 bits.)
\<close>

definition float_of_int :: "int \<Rightarrow> float" where
  "float_of_int n = binary64 (real_of_int n)"

text \<open>The arithmetic of IEEE 754 in the default rounding mode.\<close>

fun float_add :: "float \<Rightarrow> float \<Rightarrow> float" where
  "float_add (Finite x) (Finite y) = binary64 (x + y)"
| "float_add NaN _ = NaN"
| "float_add _ NaN = NaN"
| "float_add PlusInfinity MinusInfinity = NaN"
| "float_add MinusInfinity PlusInfinity = NaN"
| "float_add (Finite x) b = b"
| "float_add a _ = a"

fun float_neg :: "float \<Rightarrow> float" where
  "float_neg (Finite x) = Finite (- x)"
| "float_neg PlusInfinity = MinusInfinity"
| "float_neg MinusInfinity = PlusInfinity"
| "float_neg NaN = NaN"

fun float_sub :: "float \<Rightarrow> float \<Rightarrow> float" where
  "float_sub (Finite x) (Finite y) = binary64 (x - y)"
| "float_sub a b = float_add a (float_neg b)"

fun float_mul :: "float \<Rightarrow> float \<Rightarrow> float" where
  "float_mul (Finite x) (Finite y) = binary64 (x * y)"
| "float_mul NaN _ = NaN"
| "float_mul _ NaN = NaN"
| "float_mul (Finite x) b =
     (if x = 0 then NaN else if (0 < x) = (b = PlusInfinity) then PlusInfinity else MinusInfinity)"
| "float_mul a (Finite y) =
     (if y = 0 then NaN else if (0 < y) = (a = PlusInfinity) then PlusInfinity else MinusInfinity)"
| "float_mul a b = (if a = b then PlusInfinity else MinusInfinity)"

text \<open>
  Division. A divisor of zero raises \<^verbatim>\<open>ZeroDivisionError\<close> in Python and yields \<^verbatim>\<open>NULL\<close>
  in SQLite; the divisors of the two files are 100 and a battle count above zero, and
  \<open>float_div\<close> is \<open>NaN\<close> there.
\<close>

fun float_div :: "float \<Rightarrow> float \<Rightarrow> float" where
  "float_div NaN _ = NaN"
| "float_div _ NaN = NaN"
| "float_div a (Finite y) =
     (if y = 0 then NaN
      else case a of
             Finite x \<Rightarrow> binary64 (x / y)
           | _ \<Rightarrow> if (0 < y) = (a = PlusInfinity) then PlusInfinity else MinusInfinity)"
| "float_div (Finite x) _ = Finite 0"
| "float_div _ _ = NaN"

fun float_abs :: "float \<Rightarrow> float" where
  "float_abs (Finite x) = Finite \<bar>x\<bar>"
| "float_abs NaN = NaN"
| "float_abs _ = PlusInfinity"

text \<open>The comparisons \<^verbatim>\<open>>\<close> and \<^verbatim>\<open><\<close>: false when an argument is \<open>NaN\<close>.\<close>

fun float_greater :: "float \<Rightarrow> float \<Rightarrow> bool" where
  "float_greater NaN _ = False"
| "float_greater _ NaN = False"
| "float_greater (Finite x) (Finite y) = (x > y)"
| "float_greater a MinusInfinity = (a \<noteq> MinusInfinity)"
| "float_greater PlusInfinity b = (b \<noteq> PlusInfinity)"
| "float_greater _ _ = False"

definition float_less :: "float \<Rightarrow> float \<Rightarrow> bool" where
  "float_less a b = float_greater b a"

text \<open>
  \<^verbatim>\<open>round(x, ndigits)\<close> of Python for \<open>ndigits\<close> from zero on: the decimal number with
  that many digits after the point nearest to the value of \<open>x\<close>, a tie to the even
  digit, and of that the nearest float. An infinity, \<open>NaN\<close> and every \<open>x\<close> for more
  than 323 digits round to themselves.
\<close>

fun py_round :: "float \<Rightarrow> nat \<Rightarrow> float" where
  "py_round (Finite x) ndigits =
     (if ndigits > 323 then Finite x
      else binary64 (real_of_int (round_half_even (x * 10 ^ ndigits)) / 10 ^ ndigits))"
| "py_round a _ = a"

section \<open>The meal dataclass\<close>

text \<open>
  \<^verbatim>\<open>@dataclass class Meal\<close> of \<^verbatim>\<open>kitchen_model.py\<close>, with the types of its annotations:
  the identifier is a Python \<^verbatim>\<open>int\<close>, the price a \<^verbatim>\<open>float\<close>.
  The field \<^verbatim>\<open>id\<close> is \<open>id'\<close> here, since \<open>id\<close> is the identity function of HOL. A Python
  \<^verbatim>\<open>str\<close> is a \<open>string\<close>, one \<open>char\<close> for one character. The generated \<^verbatim>\<open>__eq__\<close> of a
  dataclass compares the fields, as equality of records does.
\<close>

record Meal =
  id' :: int
  meal :: string
  cuisine :: string
  price :: float
  difficulty :: string

text \<open>
  Construction runs \<^verbatim>\<open>__post_init__\<close>, which raises on \<^verbatim>\<open>self.price < 0\<close> and on a
  difficulty outside the list.
\<close>

definition Meal_init :: "int \<Rightarrow> string \<Rightarrow> string \<Rightarrow> float \<Rightarrow> string \<Rightarrow> error + Meal" where
  "Meal_init i m c p d =
     (if float_less p (Finite 0) then Inl (ValueError Price_must_be_positive)
      else if d \<notin> set [''LOW'', ''MED'', ''HIGH''] then Inl (ValueError Difficulty_must_be)
      else Inr \<lparr>id' = i, meal = m, cuisine = c, price = p, difficulty = d\<rparr>)"

section \<open>The battle model\<close>

text \<open>\<^verbatim>\<open>class BattleModel\<close>: its only attribute is the list of combatants.\<close>

record BattleModel =
  combatants :: "Meal list"

definition BattleModel_init :: BattleModel where
  "BattleModel_init = \<lparr>combatants = []\<rparr>"

definition difficulty_modifier :: "string \<rightharpoonup> int" where
  "difficulty_modifier = [''HIGH'' \<mapsto> 1, ''MED'' \<mapsto> 2, ''LOW'' \<mapsto> 3]"

text \<open>
  \<^verbatim>\<open>get_battle_score\<close>: the lookup \<^verbatim>\<open>difficulty_modifier[combatant.difficulty]\<close> raises
  \<^verbatim>\<open>KeyError\<close> on a difficulty that is not a key. The product and the difference are
  those of floats, the length and the modifier converted. It is a method of the model
  as the others are, so it takes the model and hands it back; it assigns to no
  attribute (the logging calls are left out).
\<close>

definition get_battle_score :: "Meal \<Rightarrow> BattleModel \<Rightarrow> (error + float) \<times> BattleModel" where
  "get_battle_score combatant self =
     (case difficulty_modifier (difficulty combatant) of
        None \<Rightarrow> (Inl (KeyError (difficulty combatant)), self)
      | Some modifier \<Rightarrow>
          (Inr (float_sub
                  (float_mul (price combatant) (float_of_int (int (length (cuisine combatant)))))
                  (float_of_int modifier)),
           self))"

definition prep_combatant :: "Meal \<Rightarrow> BattleModel \<Rightarrow> (error + unit) \<times> BattleModel" where
  "prep_combatant combatant_data self =
     (if length (combatants self) \<ge> 2 then (Inl (ValueError Combatant_list_is_full), self)
      else (Inr (), self\<lparr>combatants := combatants self @ [combatant_data]\<rparr>))"

definition clear_combatants :: "BattleModel \<Rightarrow> unit \<times> BattleModel" where
  "clear_combatants self = ((), self\<lparr>combatants := []\<rparr>)"

definition get_combatants :: "BattleModel \<Rightarrow> Meal list \<times> BattleModel" where
  "get_combatants self = (combatants self, self)"

text \<open>
  \<^verbatim>\<open>battle\<close>. Two names of the method are bound outside \<^verbatim>\<open>battle_model.py\<close>:

  \<^item> \<^verbatim>\<open>update_meal_stats\<close>, looked up in the module at call time (the tests patch it).
    It is the parameter \<open>update_stats\<close>, a function on a store of any type \<open>'s\<close> that
    returns its outcome and the store it leaves behind, also when it raises.
    \<open>update_meal_stats\<close> of the kitchen model below is one instance.
  \<^item> \<^verbatim>\<open>get_random\<close> of \<^verbatim>\<open>meal_max.utils.random_utils\<close>, which is not among the
    sources. Its outcome is the parameter \<open>random\<close>: the float drawn, or an error.

  The result is what the method returns or raises, the model afterwards and the store
  afterwards. The statements run in the order of the source, so an earlier raise hides
  a later one. \<^verbatim>\<open>delta\<close> is \<^verbatim>\<open>abs(score_1 - score_2) / 100\<close> in float arithmetic and is
  compared with \<^verbatim>\<open>>\<close>. \<^verbatim>\<open>self.combatants.remove(loser)\<close> deletes the first element
  equal to \<open>loser\<close>, which is \<open>remove1\<close>; the loser is always in the list at that point.
\<close>

definition battle ::
  "(int \<Rightarrow> string \<Rightarrow> 's \<Rightarrow> (error + unit) \<times> 's) \<Rightarrow> error + float \<Rightarrow>
     BattleModel \<Rightarrow> 's \<Rightarrow> (error + string) \<times> BattleModel \<times> 's" where
  "battle update_stats random self store =
     (if length (combatants self) < 2
      then (Inl (ValueError Two_combatants_must_be_prepped), self, store)
      else
        let combatant_1 = combatants self ! 0;
            combatant_2 = combatants self ! 1
        in case get_battle_score combatant_1 self of
             (Inl e, self) \<Rightarrow> (Inl e, self, store)
           | (Inr score_1, self) \<Rightarrow>
        (case get_battle_score combatant_2 self of
             (Inl e, self) \<Rightarrow> (Inl e, self, store)
           | (Inr score_2, self) \<Rightarrow>
        (let delta = float_div (float_abs (float_sub score_1 score_2)) (float_of_int 100)
         in case random of
              Inl e \<Rightarrow> (Inl e, self, store)
            | Inr random_number \<Rightarrow>
        (let (winner, loser) =
               (if float_greater delta random_number then (combatant_1, combatant_2)
                else (combatant_2, combatant_1))
         in case update_stats (id' winner) ''win'' store of
              (Inl e, store1) \<Rightarrow> (Inl e, self, store1)
            | (Inr _, store1) \<Rightarrow>
        (case update_stats (id' loser) ''loss'' store1 of
              (Inl e, store2) \<Rightarrow> (Inl e, self, store2)
            | (Inr _, store2) \<Rightarrow>
                (Inr (meal winner),
                 self\<lparr>combatants := remove1 loser (combatants self)\<rparr>,
                 store2))))))"

text \<open>
  A spy around a persistence function, as the \<^verbatim>\<open>Mock\<close> of the tests is: it appends each
  call's arguments to a list before it hands the call on.
\<close>

definition spy ::
  "(int \<Rightarrow> string \<Rightarrow> 's \<Rightarrow> (error + unit) \<times> 's) \<Rightarrow>
     int \<Rightarrow> string \<Rightarrow> (int \<times> string) list \<times> 's \<Rightarrow> (error + unit) \<times> (int \<times> string) list \<times> 's" where
  "spy update_stats meal_id result cs =
     (case update_stats meal_id result (snd cs) of
        (outcome, store') \<Rightarrow> (outcome, fst cs @ [(meal_id, result)], store'))"

section \<open>The table of meals\<close>

text \<open>
  Modelled from the spec: the table \<^verbatim>\<open>meals\<close>, whose \<^verbatim>\<open>CREATE TABLE\<close> script is not
  among the sources. Its columns are those the statements of \<^verbatim>\<open>kitchen_model.py\<close> name
  and the spec's data model lists: identifier, name, cuisine, price, difficulty, battle
  count, win count and deleted flag. A table is the list of its rows in storage order.
  An identifier is an SQLite \<^verbatim>\<open>INTEGER\<close>, a signed integer of 64 bits, read with \<open>sint\<close>.
  A counter is an integer; one that has outgrown 64 bits is a \<^verbatim>\<open>REAL\<close> in SQLite, and
  the row holds its value. Identifiers and names may repeat, counters may be negative.
\<close>

record row =
  row_id :: "64 word"
  row_meal :: string
  row_cuisine :: string
  row_price :: float
  row_difficulty :: string
  battles :: int
  wins :: int
  deleted :: bool

text \<open>
  The SQL statements of \<^verbatim>\<open>kitchen_model.py\<close> that the functions below execute, with the
  Python integer bound to each.
\<close>

datatype ordering = ORDER_BY_win_pct_DESC | ORDER_BY_wins_DESC

datatype statement =
    SELECT_deleted_WHERE_id int
      \<comment> \<open>\<^verbatim>\<open>SELECT deleted FROM meals WHERE id = ?\<close>\<close>
  | UPDATE_SET_deleted_WHERE_id int
      \<comment> \<open>\<^verbatim>\<open>UPDATE meals SET deleted = TRUE WHERE id = ?\<close>\<close>
  | SELECT_leaderboard ordering
      \<comment> \<open>\<^verbatim>\<open>SELECT id, meal, cuisine, price, difficulty, battles, wins,
          (wins * 1.0 / battles) AS win_pct FROM meals WHERE deleted = false AND battles > 0\<close>
          followed by \<^verbatim>\<open>ORDER BY win_pct DESC\<close> or \<^verbatim>\<open>ORDER BY wins DESC\<close>\<close>
  | SELECT_meal_WHERE_id int
      \<comment> \<open>\<^verbatim>\<open>SELECT id, meal, cuisine, price, difficulty, deleted FROM meals WHERE id = ?\<close>\<close>
  | UPDATE_SET_battles_wins_WHERE_id int
      \<comment> \<open>\<^verbatim>\<open>UPDATE meals SET battles = battles + 1, wins = wins + 1 WHERE id = ?\<close>\<close>
  | UPDATE_SET_battles_WHERE_id int
      \<comment> \<open>\<^verbatim>\<open>UPDATE meals SET battles = battles + 1 WHERE id = ?\<close>\<close>

fun parameters :: "statement \<Rightarrow> int list" where
  "parameters (SELECT_deleted_WHERE_id i) = [i]"
| "parameters (UPDATE_SET_deleted_WHERE_id i) = [i]"
| "parameters (SELECT_leaderboard _) = []"
| "parameters (SELECT_meal_WHERE_id i) = [i]"
| "parameters (UPDATE_SET_battles_wins_WHERE_id i) = [i]"
| "parameters (UPDATE_SET_battles_WHERE_id i) = [i]"

text \<open>The Python integers that \<^verbatim>\<open>sqlite3\<close> can bind.\<close>

definition bindable :: "int \<Rightarrow> bool" where
  "bindable i \<longleftrightarrow> - (2 ^ 63) \<le> i \<and> i < 2 ^ 63"

text \<open>
  The database behind \<^verbatim>\<open>get_db_connection\<close>: the table, and the statements executed on
  it so far, oldest first. The second component makes "no statement was executed" a
  property of the state.
\<close>

record database =
  meals :: "row list"
  executed :: "statement list"

text \<open>
  The computed column \<^verbatim>\<open>(wins * 1.0 / battles) AS win_pct\<close>, in the \<^verbatim>\<open>REAL\<close> arithmetic
  of SQLite. For counters within 64 bits and a battle count above zero it is finite.
\<close>

definition win_pct :: "row \<Rightarrow> float" where
  "win_pct r = float_div (float_mul (float_of_int (wins r)) (Finite 1)) (float_of_int (battles r))"

text \<open>
  \<^verbatim>\<open>counter + 1\<close>: integer addition while the result fits into 64 bits, and the
  addition of \<^verbatim>\<open>REAL\<close> numbers from there on.
\<close>

definition incremented :: "int \<Rightarrow> int" where
  "incremented n =
     (if n < 2 ^ 63 - 1 then n + 1
      else case float_add (float_of_int n) (Finite 1) of Finite y \<Rightarrow> \<lfloor>y\<rfloor> | _ \<Rightarrow> n)"

text \<open>
  The key of \<^verbatim>\<open>ORDER BY win_pct DESC\<close>: the greater number first, and \<^verbatim>\<open>NULL\<close>, which
  is what SQLite makes of \<open>NaN\<close>, last.
\<close>

fun descending :: "float \<Rightarrow> int \<times> real" where
  "descending PlusInfinity = (0, 0)"
| "descending (Finite x) = (1, - x)"
| "descending MinusInfinity = (2, 0)"
| "descending NaN = (3, 0)"

text \<open>
  What a statement yields and what it leaves. An \<^verbatim>\<open>UPDATE\<close> changes every row that
  matches; a \<^verbatim>\<open>SELECT\<close> yields the matching rows in storage order, or in the order asked
  for. \<^verbatim>\<open>ORDER BY ... DESC\<close> is a stable sort here; SQLite promises no order among
  rows with equal keys.
\<close>

definition rows_of :: "statement \<Rightarrow> row list \<Rightarrow> row list" where
  "rows_of stmt rows =
     (case stmt of
        SELECT_deleted_WHERE_id i \<Rightarrow> filter (\<lambda>r. sint (row_id r) = i) rows
      | SELECT_meal_WHERE_id i \<Rightarrow> filter (\<lambda>r. sint (row_id r) = i) rows
      | SELECT_leaderboard ORDER_BY_win_pct_DESC \<Rightarrow>
          sort_key (\<lambda>r. descending (win_pct r))
            (filter (\<lambda>r. deleted r = False \<and> battles r > 0) rows)
      | SELECT_leaderboard ORDER_BY_wins_DESC \<Rightarrow>
          sort_key (\<lambda>r. - wins r) (filter (\<lambda>r. deleted r = False \<and> battles r > 0) rows)
      | _ \<Rightarrow> [])"

definition table_after :: "statement \<Rightarrow> row list \<Rightarrow> row list" where
  "table_after stmt rows =
     (case stmt of
        UPDATE_SET_deleted_WHERE_id i \<Rightarrow>
          map (\<lambda>r. if sint (row_id r) = i then r\<lparr>deleted := True\<rparr> else r) rows
      | UPDATE_SET_battles_wins_WHERE_id i \<Rightarrow>
          map (\<lambda>r. if sint (row_id r) = i
                    then r\<lparr>battles := incremented (battles r), wins := incremented (wins r)\<rparr>
                    else r) rows
      | UPDATE_SET_battles_WHERE_id i \<Rightarrow>
          map (\<lambda>r. if sint (row_id r) = i then r\<lparr>battles := incremented (battles r)\<rparr> else r)
            rows
      | _ \<Rightarrow> rows)"

text \<open>
  \<^verbatim>\<open>cursor.execute\<close>: the rows of the cursor and the database afterwards. Where a
  parameter cannot be bound the call raises \<^verbatim>\<open>OverflowError\<close> and no statement runs.
\<close>

definition execute :: "statement \<Rightarrow> database \<Rightarrow> (error + row list) \<times> database" where
  "execute stmt db =
     (if \<exists>i \<in> set (parameters stmt). \<not> bindable i then (Inl OverflowError, db)
      else (Inr (rows_of stmt (meals db)),
            \<lparr>meals = table_after stmt (meals db), executed = executed db @ [stmt]\<rparr>))"

text \<open>\<^verbatim>\<open>cursor.fetchone()\<close> on a fresh cursor: the first row, or \<^verbatim>\<open>None\<close>.\<close>

definition fetchone :: "row list \<Rightarrow> row option" where
  "fetchone rows = (case rows of [] \<Rightarrow> None | r # _ \<Rightarrow> Some r)"

section \<open>The kitchen model\<close>

text \<open>
  Each function of the kitchen model returns its outcome and the database it leaves;
  \<^verbatim>\<open>conn.commit()\<close> follows the last statement at once and is left out. An error of
  \<^verbatim>\<open>cursor.execute\<close> passes through: the handlers re-raise a \<^verbatim>\<open>sqlite3.Error\<close> as it is
  and catch nothing else.

  \<^verbatim>\<open>delete_meal\<close> and \<^verbatim>\<open>update_meal_stats\<close> read \<^verbatim>\<open>cursor.fetchone()[0]\<close>: on \<^verbatim>\<open>None\<close>
  the subscript raises \<^verbatim>\<open>TypeError\<close>, which the handler turns into "not found"; the
  \<^verbatim>\<open>ValueError\<close> raised inside the \<^verbatim>\<open>try\<close> is not a \<^verbatim>\<open>TypeError\<close> and passes through.
\<close>

definition delete_meal :: "int \<Rightarrow> database \<Rightarrow> (error + unit) \<times> database" where
  "delete_meal meal_id db =
     (case execute (SELECT_deleted_WHERE_id meal_id) db of
        (Inl e, db1) \<Rightarrow> (Inl e, db1)
      | (Inr rows, db1) \<Rightarrow>
          (case fetchone rows of
             None \<Rightarrow> (Inl (ValueError (Not_found meal_id)), db1)
           | Some r \<Rightarrow>
               if deleted r then (Inl (ValueError (Has_been_deleted meal_id)), db1)
               else (case execute (UPDATE_SET_deleted_WHERE_id meal_id) db1 of
                       (Inl e, db2) \<Rightarrow> (Inl e, db2)
                     | (Inr _, db2) \<Rightarrow> (Inr (), db2))))"

text \<open>The dictionary that \<^verbatim>\<open>get_leaderboard\<close> builds of a row of its query.\<close>

record entry =
  entry_id :: int
  entry_meal :: string
  entry_cuisine :: string
  entry_price :: float
  entry_difficulty :: string
  entry_battles :: int
  entry_wins :: int
  entry_win_pct :: float

definition entry_of :: "row \<Rightarrow> entry" where
  "entry_of r =
     \<lparr>entry_id = sint (row_id r), entry_meal = row_meal r, entry_cuisine = row_cuisine r,
      entry_price = row_price r, entry_difficulty = row_difficulty r,
      entry_battles = battles r, entry_wins = wins r,
      entry_win_pct = py_round (float_mul (win_pct r) (float_of_int 100)) 1\<rparr>"

text \<open>
  \<^verbatim>\<open>get_leaderboard\<close>: the \<^verbatim>\<open>if\<close>/\<^verbatim>\<open>elif\<close>/\<^verbatim>\<open>else\<close> completes the query text or raises,
  before the connection is opened.
\<close>

definition get_leaderboard :: "string \<Rightarrow> database \<Rightarrow> (error + entry list) \<times> database" where
  "get_leaderboard sort_by db =
     (case (if sort_by = ''win_pct'' then Inr (SELECT_leaderboard ORDER_BY_win_pct_DESC)
            else if sort_by = ''wins'' then Inr (SELECT_leaderboard ORDER_BY_wins_DESC)
            else Inl (ValueError (Invalid_sort_by sort_by))) of
        Inl e \<Rightarrow> (Inl e, db)
      | Inr query \<Rightarrow>
          (case execute query db of
             (Inl e, db1) \<Rightarrow> (Inl e, db1)
           | (Inr rows, db1) \<Rightarrow> (Inr (map entry_of rows), db1)))"

text \<open>
  \<^verbatim>\<open>get_meal_by_id\<close>: a row that is not deleted becomes a \<^verbatim>\<open>Meal\<close>, whose construction
  may raise.
\<close>

definition get_meal_by_id :: "int \<Rightarrow> database \<Rightarrow> (error + Meal) \<times> database" where
  "get_meal_by_id meal_id db =
     (case execute (SELECT_meal_WHERE_id meal_id) db of
        (Inl e, db1) \<Rightarrow> (Inl e, db1)
      | (Inr rows, db1) \<Rightarrow>
          (case fetchone rows of
             Some r \<Rightarrow>
               if deleted r then (Inl (ValueError (Has_been_deleted meal_id)), db1)
               else (Meal_init (sint (row_id r)) (row_meal r) (row_cuisine r) (row_price r)
                       (row_difficulty r), db1)
           | None \<Rightarrow> (Inl (ValueError (Not_found meal_id)), db1)))"

definition update_meal_stats :: "int \<Rightarrow> string \<Rightarrow> database \<Rightarrow> (error + unit) \<times> database" where
  "update_meal_stats meal_id result db =
     (case execute (SELECT_deleted_WHERE_id meal_id) db of
        (Inl e, db1) \<Rightarrow> (Inl e, db1)
      | (Inr rows, db1) \<Rightarrow>
          (case fetchone rows of
             None \<Rightarrow> (Inl (ValueError (Not_found meal_id)), db1)
           | Some r \<Rightarrow>
               if deleted r then (Inl (ValueError (Has_been_deleted meal_id)), db1)
               else if result = ''win''
               then (case execute (UPDATE_SET_battles_wins_WHERE_id meal_id) db1 of
                       (Inl e, db2) \<Rightarrow> (Inl e, db2)
                     | (Inr _, db2) \<Rightarrow> (Inr (), db2))
               else if result = ''loss''
               then (case execute (UPDATE_SET_battles_WHERE_id meal_id) db1 of
                       (Inl e, db2) \<Rightarrow> (Inl e, db2)
                     | (Inr _, db2) \<Rightarrow> (Inr (), db2))
               else (Inl (ValueError (Invalid_result result)), db1)))"

section \<open>Sequences of calls on a battle model\<close>

text \<open>
  A caller may invoke the four methods of a \<^verbatim>\<open>BattleModel\<close> in any order and catch what
  they raise. \<open>step\<close> keeps the model and the store that a call leaves, whether it
  returned or raised; \<open>run\<close> makes the calls of a list from left to right.
\<close>

datatype operation =
    Prep_combatant Meal
  | Clear_combatants
  | Get_combatants
  | Battle "error + float"

definition step ::
  "(int \<Rightarrow> string \<Rightarrow> 's \<Rightarrow> (error + unit) \<times> 's) \<Rightarrow> operation \<Rightarrow> BattleModel \<times> 's \<Rightarrow> BattleModel \<times> 's" where
  "step update_stats operation ms =
     (case operation of
        Prep_combatant combatant_data \<Rightarrow> (snd (prep_combatant combatant_data (fst ms)), snd ms)
      | Clear_combatants \<Rightarrow> (snd (clear_combatants (fst ms)), snd ms)
      | Get_combatants \<Rightarrow> (snd (get_combatants (fst ms)), snd ms)
      | Battle random \<Rightarrow> snd (battle update_stats random (fst ms) (snd ms)))"

definition run ::
  "(int \<Rightarrow> string \<Rightarrow> 's \<Rightarrow> (error + unit) \<times> 's) \<Rightarrow> operation list \<Rightarrow> BattleModel \<times> 's \<Rightarrow> BattleModel \<times> 's" where
  "run update_stats operations ms = fold (step update_stats) operations ms"

section \<open>Example data\<close>

text \<open>
  The meals of the tests, two meals whose scores are not exact in binary arithmetic,
  and a table.
\<close>

definition pasta :: Meal where
  "pasta = \<lparr>id' = 1, meal = ''Pasta'', cuisine = ''Italian'', price = binary64 12.5,
             difficulty = ''MED''\<rparr>"

definition burger :: Meal where
  "burger = \<lparr>id' = 2, meal = ''Burger'', cuisine = ''American'', price = binary64 8,
              difficulty = ''LOW''\<rparr>"

definition sushi :: Meal where
  "sushi = \<lparr>id' = 3, meal = ''Sushi'', cuisine = ''Japanese'', price = binary64 15,
             difficulty = ''HIGH''\<rparr>"

definition dal :: Meal where
  "dal = \<lparr>id' = 7, meal = ''Dal'', cuisine = ''Indian'', price = binary64 1.1,
           difficulty = ''HIGH''\<rparr>"

definition naan :: Meal where
  "naan = \<lparr>id' = 8, meal = ''Naan'', cuisine = ''Indian'', price = binary64 2.1,
            difficulty = ''LOW''\<rparr>"

definition pasta_row :: row where
  "pasta_row = \<lparr>row_id = 1, row_meal = ''Pasta'', row_cuisine = ''Italian'',
                 row_price = binary64 12.5, row_difficulty = ''MED'', battles = 20, wins = 10,
                 deleted = False\<rparr>"

definition burger_row :: row where
  "burger_row = \<lparr>row_id = 2, row_meal = ''Burger'', row_cuisine = ''American'',
                  row_price = binary64 8, row_difficulty = ''LOW'', battles = 15, wins = 8,
                  deleted = False\<rparr>"

definition sushi_row :: row where
  "sushi_row = \<lparr>row_id = 3, row_meal = ''Sushi'', row_cuisine = ''Japanese'',
                 row_price = binary64 15, row_difficulty = ''HIGH'', battles = 4, wins = 3,
                 deleted = True\<rparr>"

definition tacos_row :: row where
  "tacos_row = \<lparr>row_id = 4, row_meal = ''Tacos'', row_cuisine = ''Mexican'',
                 row_price = binary64 8, row_difficulty = ''LOW'', battles = 0, wins = 0,
                 deleted = False\<rparr>"

definition dal_row :: row where
  "dal_row = \<lparr>row_id = 7, row_meal = ''Dal'', row_cuisine = ''Indian'',
               row_price = binary64 1.1, row_difficulty = ''HIGH'', battles = 80, wins = 23,
               deleted = False\<rparr>"

definition naan_row :: row where
  "naan_row = \<lparr>row_id = 8, row_meal = ''Naan'', row_cuisine = ''Indian'',
                row_price = binary64 2.1, row_difficulty = ''LOW'', battles = 80, wins = 49,
                deleted = False\<rparr>"

definition kitchen :: database where
  "kitchen = \<lparr>meals = [pasta_row, burger_row, sushi_row, tacos_row, dal_row, naan_row],
               executed = []\<rparr>"

section \<open>Facts about rounding\<close>

lemma powi_nat: "0 \<le> e \<Longrightarrow> (2::real) powi e = 2 ^ nat e"
  by (simp add: power_int_def)

lemma powi_neg: "0 \<le> e \<Longrightarrow> (2::real) powi (- e) = 1 / 2 ^ nat e"
  by (simp add: power_int_minus powi_nat divide_inverse)

lemma powi_less_imp_less:
  assumes "(2::real) powi a < 2 powi b"
  shows "a < b"
proof (rule ccontr)
  assume "\<not> a < b"
  then have "b \<le> a" by simp
  then have "(2::real) powi b \<le> 2 powi a"
    by (intro power_int_increasing) simp_all
  with assms show False by simp
qed

text \<open>The exponent brackets the magnitude of its argument.\<close>

lemma exponent_lower:
  assumes "x \<noteq> 0"
  shows "2 powi exponent x \<le> \<bar>x\<bar>"
proof (cases "\<bar>x\<bar> \<ge> 1")
  case True
  then have pos: "\<lfloor>\<bar>x\<bar>\<rfloor> > 0" by linarith
  then have ge: "bitlen \<lfloor>\<bar>x\<bar>\<rfloor> - 1 \<ge> 0"
    using bitlen_nonneg [of "\<lfloor>\<bar>x\<bar>\<rfloor>"] bitlen_eq_zero_iff [of "\<lfloor>\<bar>x\<bar>\<rfloor>"] by linarith
  from bitlen_bounds [OF pos] have "(2::int) ^ nat (bitlen \<lfloor>\<bar>x\<bar>\<rfloor> - 1) \<le> \<lfloor>\<bar>x\<bar>\<rfloor>" by simp
  then have "(2::real) ^ nat (bitlen \<lfloor>\<bar>x\<bar>\<rfloor> - 1) \<le> of_int \<lfloor>\<bar>x\<bar>\<rfloor>"
    by (metis of_int_le_iff of_int_numeral of_int_power)
  also have "\<dots> \<le> \<bar>x\<bar>" by simp
  finally show ?thesis
    using True by (simp add: exponent_def powi_nat [OF ge])
next
  case False
  let ?k = "\<lceil>1 / \<bar>x\<bar>\<rceil>"
  let ?b = "bitlen (?k - 1)"
  from False assms have "1 / \<bar>x\<bar> > 1" by simp
  then have pos: "?k - 1 > 0" by linarith
  have b0: "?b \<ge> 0" by (rule bitlen_nonneg)
  from bitlen_bounds [OF pos] have "?k - 1 < 2 ^ nat ?b" by simp
  then have "?k \<le> 2 ^ nat ?b" by simp
  then have "of_int ?k \<le> (2::real) ^ nat ?b"
    by (metis of_int_le_iff of_int_numeral of_int_power)
  moreover have "1 / \<bar>x\<bar> \<le> of_int ?k" by simp
  ultimately have "1 / \<bar>x\<bar> \<le> 2 ^ nat ?b" by linarith
  then have "1 / 2 ^ nat ?b \<le> \<bar>x\<bar>"
    using assms by (simp add: field_simps)
  then show ?thesis
    using False by (simp add: exponent_def powi_neg [OF b0])
qed

lemma exponent_upper:
  assumes "x \<noteq> 0"
  shows "\<bar>x\<bar> < 2 powi (exponent x + 1)"
proof (cases "\<bar>x\<bar> \<ge> 1")
  case True
  then have pos: "\<lfloor>\<bar>x\<bar>\<rfloor> > 0" by linarith
  have ge: "bitlen \<lfloor>\<bar>x\<bar>\<rfloor> \<ge> 0" by (rule bitlen_nonneg)
  from bitlen_bounds [OF pos] have "\<lfloor>\<bar>x\<bar>\<rfloor> < 2 ^ nat (bitlen \<lfloor>\<bar>x\<bar>\<rfloor>)" by simp
  then have "\<lfloor>\<bar>x\<bar>\<rfloor> + 1 \<le> 2 ^ nat (bitlen \<lfloor>\<bar>x\<bar>\<rfloor>)" by simp
  then have "of_int (\<lfloor>\<bar>x\<bar>\<rfloor> + 1) \<le> (2::real) ^ nat (bitlen \<lfloor>\<bar>x\<bar>\<rfloor>)"
    by (metis of_int_le_iff of_int_numeral of_int_power)
  moreover have "\<bar>x\<bar> < of_int (\<lfloor>\<bar>x\<bar>\<rfloor> + 1)" by linarith
  ultimately have "\<bar>x\<bar> < 2 ^ nat (bitlen \<lfloor>\<bar>x\<bar>\<rfloor>)" by linarith
  then show ?thesis
    using True by (simp add: exponent_def powi_nat [OF ge])
next
  case False
  let ?k = "\<lceil>1 / \<bar>x\<bar>\<rceil>"
  let ?b = "bitlen (?k - 1)"
  from False assms have gt: "1 / \<bar>x\<bar> > 1" by simp
  then have pos: "?k - 1 > 0" by linarith
  then have b1: "?b - 1 \<ge> 0"
    using bitlen_nonneg [of "?k - 1"] bitlen_eq_zero_iff [of "?k - 1"] by linarith
  from bitlen_bounds [OF pos] have "(2::int) ^ nat (?b - 1) \<le> ?k - 1" by simp
  then have "(2::real) ^ nat (?b - 1) \<le> of_int (?k - 1)"
    by (metis of_int_le_iff of_int_numeral of_int_power)
  moreover have "of_int (?k - 1) < 1 / \<bar>x\<bar>" by linarith
  ultimately have "2 ^ nat (?b - 1) < 1 / \<bar>x\<bar>" by linarith
  then have less: "\<bar>x\<bar> < 1 / 2 ^ nat (?b - 1)"
    using assms by (simp add: field_simps)
  have e: "exponent x + 1 = - (?b - 1)"
    using False by (simp add: exponent_def)
  show ?thesis
    unfolding e powi_neg [OF b1] by (rule less)
qed

lemma exponent_minus: "exponent (- x) = exponent x"
  by (simp add: exponent_def)

lemma exponent_mono:
  assumes "0 < x" and "x \<le> y"
  shows "exponent x \<le> exponent y"
proof -
  have "2 powi exponent x \<le> \<bar>x\<bar>" using assms by (intro exponent_lower) simp
  also have "\<dots> \<le> \<bar>y\<bar>" using assms by simp
  also have "\<dots> < 2 powi (exponent y + 1)" using assms by (intro exponent_upper) simp
  finally have "2 powi exponent x < (2::real) powi (exponent y + 1)" .
  then have "exponent x < exponent y + 1" by (rule powi_less_imp_less)
  then show ?thesis by simp
qed

text \<open>Rounding to an integer is monotone and odd.\<close>

lemma round_half_even_bounds:
  "\<lfloor>x\<rfloor> \<le> round_half_even x" "round_half_even x \<le> \<lfloor>x\<rfloor> + 1"
  by (simp_all add: round_half_even_def Let_def)

lemma round_half_even_mono:
  assumes "x \<le> y"
  shows "round_half_even x \<le> round_half_even y"
proof (cases "\<lfloor>x\<rfloor> = \<lfloor>y\<rfloor>")
  case True
  with assms have "x - of_int \<lfloor>x\<rfloor> \<le> y - of_int \<lfloor>y\<rfloor>" by simp
  with True show ?thesis
    by (auto simp add: round_half_even_def Let_def)
next
  case False
  with assms have "\<lfloor>x\<rfloor> + 1 \<le> \<lfloor>y\<rfloor>"
    using floor_mono [of x y] by linarith
  with round_half_even_bounds(2) [of x] round_half_even_bounds(1) [of y]
  show ?thesis by linarith
qed

lemma round_half_even_of_int: "round_half_even (of_int n) = n"
  by (simp add: round_half_even_def)

lemma round_half_even_minus: "round_half_even (- x) = - round_half_even x"
proof (cases "x = of_int \<lfloor>x\<rfloor>")
  case True
  then obtain n where "x = of_int n" ..
  then show ?thesis
    by (simp add: round_half_even_of_int flip: of_int_minus)
next
  case False
  then have "\<lfloor>- x\<rfloor> = - \<lfloor>x\<rfloor> - 1"
    by (metis ceiling_def ceiling_altdef add.commute diff_minus_eq_add minus_diff_eq
        uminus_add_conv_diff minus_minus)
  then show ?thesis
    by (auto simp add: round_half_even_def Let_def)
qed

text \<open>Rounding to 53 bits is odd, keeps the sign and is monotone.\<close>

lemma nearest_minus: "nearest (- x) = - nearest x"
  by (simp add: nearest_def exponent_minus round_half_even_minus Let_def)

lemma nearest_nonneg:
  assumes "0 \<le> x"
  shows "0 \<le> nearest x"
proof -
  let ?q = "max (exponent x) (- 1022) - 52"
  from assms have "0 \<le> x / 2 powi ?q" by simp
  then have "0 \<le> \<lfloor>x / 2 powi ?q\<rfloor>" by simp
  with round_half_even_bounds(1) [of "x / 2 powi ?q"]
  have "0 \<le> round_half_even (x / 2 powi ?q)" by linarith
  then show ?thesis by (simp add: nearest_def Let_def)
qed

lemma nearest_nonpos:
  assumes "x \<le> 0"
  shows "nearest x \<le> 0"
proof -
  from assms have "0 \<le> nearest (- x)" by (intro nearest_nonneg) simp
  then show ?thesis by (simp add: nearest_minus)
qed

lemma nearest_upper:
  assumes "0 < x"
  shows "nearest x \<le> 2 powi (max (exponent x) (- 1022) + 1)"
proof -
  let ?E = "max (exponent x) (- 1022)"
  let ?u = "(2::real) powi (?E - 52)"
  have u: "0 < ?u" by simp
  have "x < 2 powi (exponent x + 1)"
    using exponent_upper [of x] assms by simp
  also have "\<dots> \<le> 2 powi (?E + 1)"
    by (intro power_int_increasing) simp_all
  finally have "x < 2 powi (?E + 1)" .
  moreover have split: "(2::real) powi (?E + 1) = 2 ^ 53 * ?u"
  proof -
    have "?E + 1 = 53 + (?E - 52)" by linarith
    then have "(2::real) powi (?E + 1) = 2 powi (53 + (?E - 52))"
      by (rule arg_cong)
    also have "\<dots> = 2 powi 53 * ?u" by (rule power_int_add) simp
    finally show ?thesis by simp
  qed
  ultimately have "x / ?u < 2 ^ 53"
    using u by (simp add: field_simps)
  then have "\<lfloor>x / ?u\<rfloor> < 2 ^ 53"
    by (metis floor_less_iff of_int_numeral of_int_power)
  with round_half_even_bounds(2) [of "x / ?u"]
  have "round_half_even (x / ?u) \<le> 2 ^ 53" by linarith
  then have "of_int (round_half_even (x / ?u)) \<le> (2::real) ^ 53"
    by (metis of_int_le_iff of_int_numeral of_int_power)
  then have "of_int (round_half_even (x / ?u)) * ?u \<le> 2 ^ 53 * ?u"
    using u by (simp add: mult_right_mono)
  with split show ?thesis
    by (simp add: nearest_def Let_def)
qed

lemma nearest_lower:
  assumes "0 < x" and "- 1022 \<le> exponent x"
  shows "2 powi exponent x \<le> nearest x"
proof -
  let ?u = "(2::real) powi (exponent x - 52)"
  have u: "0 < ?u" by simp
  have E: "max (exponent x) (- 1022) = exponent x" using assms(2) by simp
  have split: "(2::real) powi exponent x = 2 ^ 52 * ?u"
  proof -
    have "exponent x = 52 + (exponent x - 52)" by linarith
    then have "(2::real) powi exponent x = 2 powi (52 + (exponent x - 52))"
      by (rule arg_cong)
    also have "\<dots> = 2 powi 52 * ?u" by (rule power_int_add) simp
    finally show ?thesis by simp
  qed
  have "2 powi exponent x \<le> x"
    using exponent_lower [of x] assms(1) by simp
  then have "2 ^ 52 \<le> x / ?u"
    using u split by (simp add: field_simps)
  then have "2 ^ 52 \<le> \<lfloor>x / ?u\<rfloor>"
    by (metis le_floor_iff of_int_numeral of_int_power)
  with round_half_even_bounds(1) [of "x / ?u"]
  have "2 ^ 52 \<le> round_half_even (x / ?u)" by linarith
  then have "(2::real) ^ 52 \<le> of_int (round_half_even (x / ?u))"
    by (metis of_int_le_iff of_int_numeral of_int_power)
  then have "2 ^ 52 * ?u \<le> of_int (round_half_even (x / ?u)) * ?u"
    using u by (simp add: mult_right_mono)
  with split show ?thesis
    by (simp add: nearest_def Let_def E)
qed

lemma nearest_mono_pos:
  assumes "0 < x" and "x \<le> y"
  shows "nearest x \<le> nearest y"
proof -
  let ?Ex = "max (exponent x) (- 1022)"
  let ?Ey = "max (exponent y) (- 1022)"
  from assms have y: "0 < y" by simp
  have le: "?Ex \<le> ?Ey"
    using exponent_mono [OF assms] by simp
  show ?thesis
  proof (cases "?Ex = ?Ey")
    case True
    let ?u = "(2::real) powi (?Ex - 52)"
    have u: "0 < ?u" by simp
    from assms(2) u have "x / ?u \<le> y / ?u" by (simp add: divide_right_mono)
    then have "round_half_even (x / ?u) \<le> round_half_even (y / ?u)"
      by (rule round_half_even_mono)
    then have "of_int (round_half_even (x / ?u)) * ?u \<le> of_int (round_half_even (y / ?u)) * ?u"
      using u by (simp add: mult_right_mono)
    then show ?thesis
      by (simp add: nearest_def Let_def flip: True)
  next
    case False
    with le have less: "?Ex + 1 \<le> ?Ey" by simp
    then have normal: "- 1022 \<le> exponent y" and Ey: "?Ey = exponent y" by simp_all
    have "nearest x \<le> 2 powi (?Ex + 1)"
      by (rule nearest_upper [OF assms(1)])
    also have "\<dots> \<le> 2 powi ?Ey"
      using less by (intro power_int_increasing) simp_all
    also have "\<dots> \<le> nearest y"
      unfolding Ey by (rule nearest_lower [OF y normal])
    finally show ?thesis .
  qed
qed

lemma nearest_mono:
  assumes "x \<le> y"
  shows "nearest x \<le> nearest y"
proof -
  consider "0 < x" | "x \<le> 0" "0 \<le> y" | "y < 0" by linarith
  then show ?thesis
  proof cases
    case 1
    then show ?thesis using assms by (rule nearest_mono_pos)
  next
    case 2
    then have "nearest x \<le> 0" by (intro nearest_nonpos)
    also have "0 \<le> nearest y" using 2 by (intro nearest_nonneg)
    finally show ?thesis .
  next
    case 3
    then have "0 < - y" "- y \<le> - x" using assms by simp_all
    then have "nearest (- y) \<le> nearest (- x)" by (rule nearest_mono_pos)
    then show ?thesis by (simp add: nearest_minus)
  qed
qed

text \<open>
  The operations that make a leaderboard percentage of a quotient keep the order: a
  number that is not greater before them is not greater after them.
\<close>

lemma not_greater_PlusInfinity: "\<not> float_greater a PlusInfinity"
  by (cases a) simp_all

lemma not_MinusInfinity_greater: "\<not> float_greater MinusInfinity a"
  by (cases a) simp_all

lemma binary64_mono:
  assumes "x \<le> y"
  shows "\<not> float_greater (binary64 x) (binary64 y)"
proof -
  have m: "nearest x \<le> nearest y" using assms by (rule nearest_mono)
  have sx: "0 < x \<Longrightarrow> 0 \<le> nearest x" "x \<le> 0 \<Longrightarrow> nearest x \<le> 0"
    by (simp_all add: nearest_nonneg nearest_nonpos)
  have sy: "0 < y \<Longrightarrow> 0 \<le> nearest y" "y \<le> 0 \<Longrightarrow> nearest y \<le> 0"
    by (simp_all add: nearest_nonneg nearest_nonpos)
  show ?thesis
  proof (cases "\<bar>nearest y\<bar> \<ge> 2 ^ 1024")
    case True
    show ?thesis
    proof (cases "0 < y")
      case True
      with \<open>\<bar>nearest y\<bar> \<ge> 2 ^ 1024\<close> show ?thesis
        by (simp add: binary64_def not_greater_PlusInfinity)
    next
      case False
      with sy True have "nearest y \<le> - (2 ^ 1024)" by linarith
      with m have "nearest x \<le> - (2 ^ 1024)" by linarith
      moreover from False assms have "\<not> 0 < x" by simp
      ultimately show ?thesis
        by (simp add: binary64_def not_MinusInfinity_greater)
    qed
  next
    case False
    show ?thesis
    proof (cases "\<bar>nearest x\<bar> \<ge> 2 ^ 1024")
      case True
      have "\<not> 0 < x"
      proof
        assume "0 < x"
        with sx True have "2 ^ 1024 \<le> nearest x" by linarith
        with m False show False by linarith
      qed
      with True show ?thesis
        by (simp add: binary64_def not_MinusInfinity_greater)
    next
      case False
      with \<open>\<not> \<bar>nearest y\<bar> \<ge> 2 ^ 1024\<close> m show ?thesis
        by (simp add: binary64_def)
    qed
  qed
qed

lemma float_mul_mono:
  assumes "0 < c" and "\<not> float_greater b a"
  shows "\<not> float_greater (float_mul b (Finite c)) (float_mul a (Finite c))"
proof (cases a)
  case a: (Finite x)
  show ?thesis
  proof (cases b)
    case (Finite y)
    with a assms have "y * c \<le> x * c" by (simp add: mult_right_mono)
    then show ?thesis
      unfolding a Finite by (simp add: binary64_mono)
  qed (use a assms in \<open>simp_all add: not_MinusInfinity_greater\<close>)
next
  case PlusInfinity
  with assms show ?thesis by (simp add: not_greater_PlusInfinity)
next
  case MinusInfinity
  with assms show ?thesis by (cases b) (simp_all add: not_MinusInfinity_greater)
next
  case NaN
  then show ?thesis by (cases "float_mul b (Finite c)") simp_all
qed

lemma py_round_mono:
  assumes "\<not> float_greater b a"
  shows "\<not> float_greater (py_round b n) (py_round a n)"
proof (cases a)
  case a: (Finite x)
  show ?thesis
  proof (cases b)
    case (Finite y)
    with a assms have "y \<le> x" by simp
    then have "y * 10 ^ n \<le> x * 10 ^ n" by (simp add: mult_right_mono)
    then have "round_half_even (y * 10 ^ n) \<le> round_half_even (x * 10 ^ n)"
      by (rule round_half_even_mono)
    then have "real_of_int (round_half_even (y * 10 ^ n)) / 10 ^ n \<le>
        real_of_int (round_half_even (x * 10 ^ n)) / 10 ^ n"
      by (simp add: divide_right_mono)
    with \<open>y \<le> x\<close> show ?thesis
      unfolding a Finite by (simp add: binary64_mono)
  qed (use a assms in \<open>simp_all add: not_MinusInfinity_greater\<close>)
next
  case PlusInfinity
  then show ?thesis by (simp add: not_greater_PlusInfinity)
next
  case MinusInfinity
  with assms show ?thesis by (cases b) (simp_all add: not_MinusInfinity_greater)
next
  case NaN
  then show ?thesis by (cases "py_round b n") simp_all
qed

lemma descending_order:
  assumes "descending a \<le> descending b"
  shows "\<not> float_greater b a"
  using assms by (cases a; cases b) simp_all

text \<open>
  A multiple of a power of two that is fine enough is its own rounding; hence rounding
  is idempotent, and \<^verbatim>\<open>x * 1.0\<close> is \<open>x\<close> for the float of an integer.
\<close>

lemma nearest_zero: "nearest 0 = 0"
  by (simp add: nearest_def round_half_even_def)

lemma nearest_exact:
  assumes "y = of_int k * 2 powi q"
    and "max (exponent y) (- 1022) - 52 \<le> q"
  shows "nearest y = y"
proof -
  let ?q = "max (exponent y) (- 1022) - 52"
  have "(2::real) powi q = 2 powi (q - ?q) * 2 powi ?q"
    by (simp add: power_int_add [symmetric])
  also have "(2::real) powi (q - ?q) = of_int (2 ^ nat (q - ?q))"
    using assms(2) by (simp add: powi_nat)
  finally have y: "y = of_int (k * 2 ^ nat (q - ?q)) * 2 powi ?q"
    using assms(1) by simp
  moreover have "a / u = m" if "a = m * u" "u \<noteq> 0" for a m u :: real
    using that by simp
  ultimately have "y / 2 powi ?q = of_int (k * 2 ^ nat (q - ?q))"
    by (metis power_int_eq_0_iff zero_neq_numeral)
  then have "round_half_even (y / 2 powi ?q) = k * 2 ^ nat (q - ?q)"
    by (simp only: round_half_even_of_int)
  then have "nearest y = of_int (k * 2 ^ nat (q - ?q)) * 2 powi ?q"
    by (simp add: nearest_def Let_def)
  with y show ?thesis by simp
qed

lemma nearest_idem_pos:
  assumes "0 < x"
  shows "nearest (nearest x) = nearest x"
proof -
  let ?E = "max (exponent x) (- 1022)"
  let ?y = "nearest x"
  have upper: "?y \<le> 2 powi (?E + 1)" using assms by (rule nearest_upper)
  have nonneg: "0 \<le> ?y" using assms by (simp add: nearest_nonneg)
  consider "?y = 0" | "0 < ?y" "?y < 2 powi (?E + 1)" | "?y = 2 powi (?E + 1)"
    using upper nonneg by linarith
  then show ?thesis
  proof cases
    case 1
    then show ?thesis by (simp add: nearest_zero)
  next
    case 2
    have "2 powi exponent ?y \<le> \<bar>?y\<bar>" using 2(1) by (intro exponent_lower) simp
    with 2 have "(2::real) powi exponent ?y < 2 powi (?E + 1)" by simp
    then have "exponent ?y < ?E + 1" by (rule powi_less_imp_less)
    then have fine: "max (exponent ?y) (- 1022) - 52 \<le> ?E - 52" by simp
    have "?y = of_int (round_half_even (x / 2 powi (?E - 52))) * 2 powi (?E - 52)"
      by (simp add: nearest_def Let_def)
    then show ?thesis using fine by (rule nearest_exact)
  next
    case 3
    have pos: "0 < ?y" using 3 by simp
    have "2 powi exponent ?y \<le> \<bar>?y\<bar>" using pos by (intro exponent_lower) simp
    also have "\<bar>?y\<bar> < 2 powi (?E + 2)"
      using 3 by (simp add: power_int_strict_increasing)
    finally have "exponent ?y < ?E + 2" by (rule powi_less_imp_less)
    then have fine: "max (exponent ?y) (- 1022) - 52 \<le> ?E + 1" by simp
    have "?y = of_int 1 * 2 powi (?E + 1)" using 3 by simp
    then show ?thesis using fine by (rule nearest_exact)
  qed
qed

lemma nearest_idem: "nearest (nearest x) = nearest x"
proof -
  consider "0 < x" | "x = 0" | "0 < - x" by linarith
  then show ?thesis
  proof cases
    case 1
    then show ?thesis by (rule nearest_idem_pos)
  next
    case 2
    then show ?thesis by (simp add: nearest_zero)
  next
    case 3
    then have "nearest (nearest (- x)) = nearest (- x)" by (rule nearest_idem_pos)
    then show ?thesis by (simp add: nearest_minus)
  qed
qed

lemma float_mul_one: "float_mul (binary64 x) (Finite 1) = binary64 x"
  by (simp add: binary64_def nearest_idem)

text \<open>
  Evaluation of the arithmetic on numerals: the definitions, and the bit length by
  halving.
\<close>

lemmas float_eval = binary64_def nearest_def exponent_def round_half_even_def Let_def
  compute_bitlen float_of_int_def

lemma float_of_int_small:
  "float_of_int 1 = Finite 1"
  "float_of_int 2 = Finite 2"
  "float_of_int 3 = Finite 3"
  "float_of_int 100 = Finite 100"
  by (simp_all add: float_eval)

text \<open>The literals of the examples.\<close>

lemma literals:
  "binary64 0.1 = Finite (3602879701896397 / 36028797018963968)"
  "binary64 0.3 = Finite (5404319552844595 / 18014398509481984)"
  "binary64 0.245 = Finite (2206763817411543 / 9007199254740992)"
  "binary64 0.04 = Finite (5764607523034235 / 144115188075855872)"
  "binary64 0.5 = Finite (1 / 2)"
  "binary64 0.9 = Finite (8106479329266893 / 9007199254740992)"
  by (simp_all add: float_eval)

section \<open>Facts about the battle model\<close>

lemma difficulty_modifier_simps:
  "difficulty_modifier ''HIGH'' = Some 1"
  "difficulty_modifier ''MED'' = Some 2"
  "difficulty_modifier ''LOW'' = Some 3"
  by (simp_all add: difficulty_modifier_def)

lemma get_battle_score_model:
  assumes "get_battle_score c self = (outcome, self')"
  shows "self' = self"
  using assms by (simp add: get_battle_score_def split: option.splits)

lemma get_battle_score_pair:
  assumes "fst (get_battle_score c self) = outcome"
  shows "get_battle_score c self = (outcome, self)"
  using assms by (simp add: get_battle_score_def split: option.splits)

lemma get_battle_score_valid:
  assumes "difficulty c \<in> {''LOW'', ''MED'', ''HIGH''}"
  shows "\<exists>score. \<forall>self. get_battle_score c self = (Inr score, self)"
  using assms by (auto simp add: get_battle_score_def difficulty_modifier_simps)

text \<open>
  The scores of the examples: 85.5, 61 and 119 are exact; \<^verbatim>\<open>1.1 * 6 - 1\<close> is
  5.6000000000000005 and \<^verbatim>\<open>2.1 * 6 - 3\<close> is 9.600000000000001.
\<close>

lemma score_pasta:
  "get_battle_score pasta self = (Inr (Finite 85.5), self)"
  by (simp add: pasta_def get_battle_score_def difficulty_modifier_simps float_eval)

lemma score_burger:
  "get_battle_score burger self = (Inr (Finite 61), self)"
  by (simp add: burger_def get_battle_score_def difficulty_modifier_simps float_eval)

lemma score_sushi:
  "get_battle_score sushi self = (Inr (Finite 119), self)"
  by (simp add: sushi_def get_battle_score_def difficulty_modifier_simps float_eval)

lemma score_dal:
  "get_battle_score dal self = (Inr (Finite (6305039478318695 / 1125899906842624)), self)"
  by (simp add: dal_def get_battle_score_def difficulty_modifier_simps float_eval)

lemma score_naan:
  "get_battle_score naan self = (Inr (Finite (1351079888211149 / 140737488355328)), self)"
  by (simp add: naan_def get_battle_score_def difficulty_modifier_simps float_eval)

text \<open>
  Their differences over 100: 0.245, 0.335 and, for the last two meals,
  0.04000000000000001.
\<close>

lemma deltas:
  "float_div (float_abs (float_sub (Finite 85.5) (Finite 61))) (Finite 100) =
     Finite (2206763817411543 / 9007199254740992)"
  "float_div (float_abs (float_sub (Finite 119) (Finite 85.5))) (Finite 100) =
     Finite (6034823500676465 / 18014398509481984)"
  "float_div (float_abs (float_sub (Finite (6305039478318695 / 1125899906842624))
       (Finite (1351079888211149 / 140737488355328)))) (Finite 100) =
     Finite (1441151880758559 / 36028797018963968)"
  by (simp_all add: float_eval)

lemma comparisons:
  "float_greater (float_div (float_abs (float_sub (Finite 85.5) (Finite 61))) (Finite 100))
     (binary64 0.1)"
  "\<not> float_greater (float_div (float_abs (float_sub (Finite 85.5) (Finite 61))) (Finite 100))
     (binary64 0.3)"
  "\<not> float_greater (float_div (float_abs (float_sub (Finite 85.5) (Finite 61))) (Finite 100))
     (binary64 0.245)"
  "float_greater (float_div (float_abs (float_sub (Finite (6305039478318695 / 1125899906842624))
       (Finite (1351079888211149 / 140737488355328)))) (Finite 100)) (binary64 0.04)"
  "float_greater (float_div (float_abs (float_sub (Finite 119) (Finite 85.5))) (Finite 100))
     (binary64 0.1)"
  "\<not> float_greater (float_div (float_abs (float_sub (Finite 119) (Finite 85.5))) (Finite 100))
     (binary64 0.5)"
  by (simp_all add: float_eval)

lemma ids: "id' pasta = 1" "id' burger = 2" "id' sushi = 3" "id' dal = 7" "id' naan = 8"
  by (simp_all add: pasta_def burger_def sushi_def dal_def naan_def)

lemma names:
  "meal pasta = ''Pasta''" "meal burger = ''Burger''" "meal sushi = ''Sushi''"
  "meal dal = ''Dal''" "meal naan = ''Naan''"
  by (simp_all add: pasta_def burger_def sushi_def dal_def naan_def)

lemma valid_difficulties:
  "difficulty pasta \<in> {''LOW'', ''MED'', ''HIGH''}"
  "difficulty burger \<in> {''LOW'', ''MED'', ''HIGH''}"
  "difficulty sushi \<in> {''LOW'', ''MED'', ''HIGH''}"
  "difficulty dal \<in> {''LOW'', ''MED'', ''HIGH''}"
  "difficulty naan \<in> {''LOW'', ''MED'', ''HIGH''}"
  by (simp_all add: pasta_def burger_def sushi_def dal_def naan_def)

lemma spy_apply:
  "spy update_stats i res (calls, store) =
     (case update_stats i res store of (outcome, store') \<Rightarrow> (outcome, calls @ [(i, res)], store'))"
  by (simp add: spy_def)

text \<open>
  With two combatants whose scores exist and a number drawn, \<open>battle\<close> is the two
  persistence calls and the removal.
\<close>

lemma battle_two:
  assumes "combatants self = [c1, c2]"
    and "get_battle_score c1 self = (Inr score_1, self)"
    and "get_battle_score c2 self = (Inr score_2, self)"
  shows "battle update_stats (Inr r) self store =
     (let delta = float_div (float_abs (float_sub score_1 score_2)) (Finite 100);
          winner = (if float_greater delta r then c1 else c2);
          loser = (if float_greater delta r then c2 else c1)
      in case update_stats (id' winner) ''win'' store of
           (Inl e, store1) \<Rightarrow> (Inl e, self, store1)
         | (Inr _, store1) \<Rightarrow>
             (case update_stats (id' loser) ''loss'' store1 of
                (Inl e, store2) \<Rightarrow> (Inl e, self, store2)
              | (Inr _, store2) \<Rightarrow> (Inr (meal winner), self\<lparr>combatants := [winner]\<rparr>, store2)))"
  using assms
  by (simp add: battle_def Let_def float_of_int_small split: prod.splits sum.splits)

text \<open>A battle of two that returns had both scores and a number drawn.\<close>

lemma battle_returns:
  assumes "combatants self = [c1, c2]"
    and "battle update_stats random self store = (Inr name, self', store')"
  obtains score_1 score_2 r where
    "get_battle_score c1 self = (Inr score_1, self)"
    "get_battle_score c2 self = (Inr score_2, self)"
    "random = Inr r"
proof -
  obtain o1 where g1: "get_battle_score c1 self = (o1, self)"
    using get_battle_score_pair by blast
  obtain o2 where g2: "get_battle_score c2 self = (o2, self)"
    using get_battle_score_pair by blast
  from assms g1 obtain score_1 where s1: "o1 = Inr score_1"
    by (cases o1) (simp_all add: battle_def)
  from assms g1 g2 s1 obtain score_2 where s2: "o2 = Inr score_2"
    by (cases o2) (simp_all add: battle_def)
  from assms g1 g2 s1 s2 obtain r where "random = Inr r"
    by (cases random) (simp_all add: battle_def)
  with g1 g2 s1 s2 that show thesis by blast
qed

text \<open>No call makes the list of combatants longer than two.\<close>

lemma battle_pool_length:
  "length (combatants (fst (snd (battle update_stats random self store)))) \<le>
     length (combatants self)"
  by (auto simp add: battle_def Let_def length_remove1 dest!: get_battle_score_model
      split: sum.splits prod.splits)

lemma step_keeps_bound:
  assumes "length (combatants (fst ms)) \<le> 2"
  shows "length (combatants (fst (step update_stats operation ms))) \<le> 2"
proof (cases operation)
  case (Prep_combatant combatant_data)
  with assms show ?thesis by (simp add: step_def prep_combatant_def)
next
  case Clear_combatants
  then show ?thesis by (simp add: step_def clear_combatants_def)
next
  case Get_combatants
  with assms show ?thesis by (simp add: step_def get_combatants_def)
next
  case (Battle random)
  have "length (combatants (fst (snd (battle update_stats random (fst ms) (snd ms))))) \<le>
          length (combatants (fst ms))"
    by (rule battle_pool_length)
  with assms Battle show ?thesis by (simp add: step_def)
qed

lemma run_keeps_bound:
  assumes "length (combatants (fst ms)) \<le> 2"
  shows "length (combatants (fst (run update_stats operations ms))) \<le> 2"
  using assms unfolding run_def
proof (induction operations arbitrary: ms)
  case Nil
  then show ?case by simp
next
  case (Cons operation operations)
  from Cons.prems have "length (combatants (fst (step update_stats operation ms))) \<le> 2"
    by (rule step_keeps_bound)
  then show ?case using Cons.IH by simp
qed

text \<open>What construction checks.\<close>

lemma Meal_init_validates:
  "Meal_init i m c p d = Inr x \<Longrightarrow>
     \<not> float_less (price x) (Finite 0) \<and> difficulty x \<in> {''LOW'', ''MED'', ''HIGH''}"
  by (auto simp add: Meal_init_def split: if_splits)

section \<open>Facts about the kitchen model\<close>

text \<open>An identifier of a row can be bound.\<close>

lemma bindable_sint: "bindable (sint (w :: 64 word))"
  using sint_ge [of w] sint_lt [of w] by (simp add: bindable_def)

lemma find_bindable:
  assumes "find (\<lambda>r. sint (row_id r) = meal_id) rows = Some r"
  shows "bindable meal_id"
proof -
  from assms have "sint (row_id r) = meal_id"
    by (auto simp add: find_Some_iff)
  then show ?thesis
    using bindable_sint [of "row_id r"] by simp
qed

text \<open>The kitchen model in terms of the first row that has the identifier.\<close>

lemma fetchone_filter: "fetchone (filter P rows) = find P rows"
  by (induction rows) (simp_all add: fetchone_def)

lemma execute_unbindable:
  assumes "\<not> bindable i"
  shows "execute (SELECT_deleted_WHERE_id i) db = (Inl OverflowError, db)"
    and "execute (SELECT_meal_WHERE_id i) db = (Inl OverflowError, db)"
  using assms by (simp_all add: execute_def)

lemma execute_select:
  assumes "bindable i"
  shows "execute (SELECT_deleted_WHERE_id i) db =
           (Inr (filter (\<lambda>r. sint (row_id r) = i) (meals db)),
            db\<lparr>executed := executed db @ [SELECT_deleted_WHERE_id i]\<rparr>)"
    and "execute (SELECT_meal_WHERE_id i) db =
           (Inr (filter (\<lambda>r. sint (row_id r) = i) (meals db)),
            db\<lparr>executed := executed db @ [SELECT_meal_WHERE_id i]\<rparr>)"
  using assms by (simp_all add: execute_def table_after_def rows_of_def)

lemma update_meal_stats_eq:
  assumes "bindable i"
  shows "update_meal_stats i res db =
     (case find (\<lambda>r. sint (row_id r) = i) (meals db) of
        None \<Rightarrow> (Inl (ValueError (Not_found i)),
                 db\<lparr>executed := executed db @ [SELECT_deleted_WHERE_id i]\<rparr>)
      | Some r \<Rightarrow>
          if deleted r
          then (Inl (ValueError (Has_been_deleted i)),
                db\<lparr>executed := executed db @ [SELECT_deleted_WHERE_id i]\<rparr>)
          else if res = ''win''
          then (Inr (),
                \<lparr>meals = map (\<lambda>r. if sint (row_id r) = i
                                   then r\<lparr>battles := incremented (battles r),
                                          wins := incremented (wins r)\<rparr>
                                   else r)
                          (meals db),
                 executed = executed db @
                   [SELECT_deleted_WHERE_id i, UPDATE_SET_battles_wins_WHERE_id i]\<rparr>)
          else if res = ''loss''
          then (Inr (),
                \<lparr>meals = map (\<lambda>r. if sint (row_id r) = i
                                   then r\<lparr>battles := incremented (battles r)\<rparr> else r)
                          (meals db),
                 executed = executed db @
                   [SELECT_deleted_WHERE_id i, UPDATE_SET_battles_WHERE_id i]\<rparr>)
          else (Inl (ValueError (Invalid_result res)),
                db\<lparr>executed := executed db @ [SELECT_deleted_WHERE_id i]\<rparr>))"
  using assms
  by (simp add: update_meal_stats_def execute_select fetchone_filter
      execute_def table_after_def rows_of_def split: option.splits)

lemma delete_meal_eq:
  assumes "bindable i"
  shows "delete_meal i db =
     (case find (\<lambda>r. sint (row_id r) = i) (meals db) of
        None \<Rightarrow> (Inl (ValueError (Not_found i)),
                 db\<lparr>executed := executed db @ [SELECT_deleted_WHERE_id i]\<rparr>)
      | Some r \<Rightarrow>
          if deleted r
          then (Inl (ValueError (Has_been_deleted i)),
                db\<lparr>executed := executed db @ [SELECT_deleted_WHERE_id i]\<rparr>)
          else (Inr (),
                \<lparr>meals = map (\<lambda>r. if sint (row_id r) = i then r\<lparr>deleted := True\<rparr> else r)
                          (meals db),
                 executed = executed db @
                   [SELECT_deleted_WHERE_id i, UPDATE_SET_deleted_WHERE_id i]\<rparr>))"
  using assms
  by (simp add: delete_meal_def execute_select fetchone_filter
      execute_def table_after_def rows_of_def split: option.splits)

lemma get_meal_by_id_eq:
  assumes "bindable i"
  shows "get_meal_by_id i db =
     (case find (\<lambda>r. sint (row_id r) = i) (meals db) of
        None \<Rightarrow> (Inl (ValueError (Not_found i)),
                 db\<lparr>executed := executed db @ [SELECT_meal_WHERE_id i]\<rparr>)
      | Some r \<Rightarrow>
          if deleted r
          then (Inl (ValueError (Has_been_deleted i)),
                db\<lparr>executed := executed db @ [SELECT_meal_WHERE_id i]\<rparr>)
          else (Meal_init (sint (row_id r)) (row_meal r) (row_cuisine r) (row_price r)
                  (row_difficulty r),
                db\<lparr>executed := executed db @ [SELECT_meal_WHERE_id i]\<rparr>))"
  using assms
  by (simp add: get_meal_by_id_def execute_select fetchone_filter split: option.splits)

text \<open>The example table.\<close>

lemmas kitchen_rows = kitchen_def pasta_row_def burger_row_def sushi_row_def tacos_row_def
  dal_row_def naan_row_def

lemma bindable_small:
  "bindable 1" "bindable 2" "bindable 3" "bindable 4" "bindable 5" "bindable 7" "bindable 8"
  by (simp_all add: bindable_def)

lemma find_kitchen:
  "find (\<lambda>r. sint (row_id r) = 1) (meals kitchen) = Some pasta_row"
  "find (\<lambda>r. sint (row_id r) = 2) (meals kitchen) = Some burger_row"
  "find (\<lambda>r. sint (row_id r) = 3) (meals kitchen) = Some sushi_row"
  "find (\<lambda>r. sint (row_id r) = 4) (meals kitchen) = Some tacos_row"
  "find (\<lambda>r. sint (row_id r) = 5) (meals kitchen) = None"
  by (simp_all add: kitchen_rows)

lemma kitchen_updates:
  "fst (update_meal_stats 1 ''win'' kitchen) = Inr ()"
  "fst (update_meal_stats 2 ''loss'' (snd (update_meal_stats 1 ''win'' kitchen))) = Inr ()"
  "fst (update_meal_stats 2 ''win'' kitchen) = Inr ()"
  "fst (update_meal_stats 1 ''loss'' (snd (update_meal_stats 2 ''win'' kitchen))) = Inr ()"
  "update_meal_stats 3 ''win'' kitchen =
     (Inl (ValueError (Has_been_deleted 3)),
      kitchen\<lparr>executed := [SELECT_deleted_WHERE_id 3]\<rparr>)"
  "fst (update_meal_stats 3 ''loss'' (snd (update_meal_stats 1 ''win'' kitchen))) =
     Inl (ValueError (Has_been_deleted 3))"
  "fst (update_meal_stats 7 ''win'' kitchen) = Inr ()"
  "fst (update_meal_stats 8 ''loss'' (snd (update_meal_stats 7 ''win'' kitchen))) = Inr ()"
  by (simp_all add: update_meal_stats_eq bindable_small kitchen_rows)

text \<open>The leaderboard in terms of the table.\<close>

lemma sorted_descending:
  fixes f :: "'a \<Rightarrow> int"
  shows "sorted_wrt (\<lambda>a b. f a \<ge> f b) (sort_key (\<lambda>r. - f r) rows)"
proof -
  have "sorted (map (\<lambda>r. - f r) (sort_key (\<lambda>r. - f r) rows))"
    by (rule sorted_sort_key)
  then show ?thesis
    by (simp add: sorted_map)
qed

lemma sorted_by_win_pct:
  "sorted_wrt (\<lambda>a b. \<not> float_greater (win_pct b) (win_pct a))
     (sort_key (\<lambda>r. descending (win_pct r)) rows)"
proof -
  have "sorted (map (\<lambda>r. descending (win_pct r)) (sort_key (\<lambda>r. descending (win_pct r)) rows))"
    by (rule sorted_sort_key)
  then have "sorted_wrt (\<lambda>a b. descending (win_pct a) \<le> descending (win_pct b))
      (sort_key (\<lambda>r. descending (win_pct r)) rows)"
    by (simp add: sorted_map)
  then show ?thesis
    by (rule sorted_wrt_mono_rel [rotated]) (simp add: descending_order)
qed

lemma get_leaderboard_eq:
  "get_leaderboard ''wins'' db =
     (Inr (map entry_of (sort_key (\<lambda>r. - wins r)
             (filter (\<lambda>r. \<not> deleted r \<and> battles r > 0) (meals db)))),
      db\<lparr>executed := executed db @ [SELECT_leaderboard ORDER_BY_wins_DESC]\<rparr>)"
  "get_leaderboard ''win_pct'' db =
     (Inr (map entry_of (sort_key (\<lambda>r. descending (win_pct r))
             (filter (\<lambda>r. \<not> deleted r \<and> battles r > 0) (meals db)))),
      db\<lparr>executed := executed db @ [SELECT_leaderboard ORDER_BY_win_pct_DESC]\<rparr>)"
  by (simp_all add: get_leaderboard_def execute_def table_after_def rows_of_def)

lemma kitchen_live:
  "filter (\<lambda>r. \<not> deleted r \<and> battles r > 0) (meals kitchen) =
     [pasta_row, burger_row, dal_row, naan_row]"
  by (simp add: kitchen_rows)

lemma entry_of_simps:
  "entry_meal (entry_of r) = row_meal r"
  "entry_wins (entry_of r) = wins r"
  "entry_battles (entry_of r) = battles r"
  "entry_win_pct (entry_of r) = py_round (float_mul (win_pct r) (Finite 100)) 1"
  by (simp_all add: entry_of_def float_of_int_small)

text \<open>
  The quotients and the percentages of the example table: 10 of 20 is 50.0, 8 of 15 is
  53.3, 23 of 80 is 28.7 and 49 of 80 is 61.3.
\<close>

lemma kitchen_win_pct:
  "win_pct pasta_row = Finite (1 / 2)"
  "win_pct burger_row = Finite (4803839602528529 / 9007199254740992)"
  "win_pct dal_row = Finite (2589569785738035 / 9007199254740992)"
  "win_pct naan_row = Finite (2758454771764429 / 4503599627370496)"
  by (simp_all add: win_pct_def kitchen_rows float_eval)

lemma kitchen_percentages:
  "entry_win_pct (entry_of pasta_row) = Finite 50"
  "entry_win_pct (entry_of burger_row) = Finite (3750654064669491 / 70368744177664)"
  "entry_win_pct (entry_of dal_row) = Finite (8078331831595827 / 281474976710656)"
  "entry_win_pct (entry_of naan_row) = Finite (4313604018090803 / 70368744177664)"
  by (simp_all add: entry_of_simps kitchen_win_pct float_eval)

lemma kitchen_columns:
  "row_meal pasta_row = ''Pasta''" "row_meal burger_row = ''Burger''"
  "row_meal dal_row = ''Dal''" "row_meal naan_row = ''Naan''"
  "wins pasta_row = 10" "wins burger_row = 8" "wins dal_row = 23" "wins naan_row = 49"
  by (simp_all add: kitchen_rows)

lemma kitchen_board:
  "map entry_meal (projr (fst (get_leaderboard ''win_pct'' kitchen))) =
     [''Naan'', ''Burger'', ''Pasta'', ''Dal'']"
  "map entry_meal (projr (fst (get_leaderboard ''wins'' kitchen))) =
     [''Naan'', ''Dal'', ''Pasta'', ''Burger'']"
  by (simp_all add: get_leaderboard_eq kitchen_live kitchen_win_pct kitchen_columns
      entry_of_simps)


text \<open>\<^verbatim>\<open>wins * 1.0 / battles\<close> is the quotient of the two counters as floats.\<close>

lemma win_pct_eq: "win_pct r = float_div (float_of_int (wins r)) (float_of_int (battles r))"
  by (simp add: win_pct_def float_of_int_def float_mul_one)

lemma entry_of_eq:
  "entry_of r =
     \<lparr>entry_id = sint (row_id r), entry_meal = row_meal r, entry_cuisine = row_cuisine r,
      entry_price = row_price r, entry_difficulty = row_difficulty r,
      entry_battles = battles r, entry_wins = wins r,
      entry_win_pct =
        py_round (float_mul (float_div (float_of_int (wins r)) (float_of_int (battles r)))
                    (Finite 100)) 1\<rparr>"
  by (simp add: entry_of_def win_pct_eq float_of_int_small)

section \<open>The battle score\<close>

text \<open>
  C2. For a meal whose difficulty is HIGH, MED or LOW, \<open>get_battle_score\<close> returns the
  price times the length of the cuisine string, minus 1, 2 or 3: the product and the
  difference of Python floats, with nothing added and nothing left out, and it hands
  the model back as it was. The score is a function of the price, the cuisine and the
  difficulty alone: two meals that agree on the three have the same score, whatever
  else differs and whatever the model holds, on every call.
\<close>

theorem get_battle_score_formula:
  "(difficulty m = ''HIGH'' \<longrightarrow>
      get_battle_score m self =
        (Inr (float_sub (float_mul (price m) (float_of_int (int (length (cuisine m)))))
                (Finite 1)), self)) \<and>
   (difficulty m = ''MED'' \<longrightarrow>
      get_battle_score m self =
        (Inr (float_sub (float_mul (price m) (float_of_int (int (length (cuisine m)))))
                (Finite 2)), self)) \<and>
   (difficulty m = ''LOW'' \<longrightarrow>
      get_battle_score m self =
        (Inr (float_sub (float_mul (price m) (float_of_int (int (length (cuisine m)))))
                (Finite 3)), self)) \<and>
   (\<forall>m' self'.
      price m' = price m \<and> cuisine m' = cuisine m \<and> difficulty m' = difficulty m \<longrightarrow>
      fst (get_battle_score m' self') = fst (get_battle_score m self))"
  by (auto simp add: get_battle_score_def difficulty_modifier_simps float_of_int_small
      split: option.splits)

text \<open>
  \<^verbatim>\<open>12.5 * 7 - 2\<close> is 85.5 and \<^verbatim>\<open>8.0 * 8 - 3\<close> is 61.0, both exact. \<^verbatim>\<open>1.1 * 6 - 1\<close> is
  5.6000000000000005 and \<^verbatim>\<open>0.1 * 6 - 1\<close> is -0.3999999999999999, the floats that Python
  computes.
\<close>

theorem get_battle_score_formula_witness:
  "get_battle_score pasta \<lparr>combatants = [pasta, burger]\<rparr> =
     (Inr (Finite 85.5), \<lparr>combatants = [pasta, burger]\<rparr>) \<and>
   get_battle_score burger \<lparr>combatants = []\<rparr> = (Inr (Finite 61), \<lparr>combatants = []\<rparr>) \<and>
   get_battle_score dal \<lparr>combatants = []\<rparr> =
     (Inr (Finite (6305039478318695 / 1125899906842624)), \<lparr>combatants = []\<rparr>) \<and>
   get_battle_score (dal\<lparr>price := binary64 0.1\<rparr>) \<lparr>combatants = []\<rparr> =
     (Inr (Finite (- (900719925474099 / 2251799813685248))), \<lparr>combatants = []\<rparr>) \<and>
   fst (get_battle_score (dal\<lparr>id' := 9, meal := ''Dal makhani''\<rparr>) \<lparr>combatants = [dal]\<rparr>) =
     fst (get_battle_score dal \<lparr>combatants = []\<rparr>)"
proof -
  have "get_battle_score pasta \<lparr>combatants = [pasta, burger]\<rparr> =
      (Inr (Finite 85.5), \<lparr>combatants = [pasta, burger]\<rparr>)"
    using get_battle_score_formula [of pasta "\<lparr>combatants = [pasta, burger]\<rparr>",
        THEN conjunct2, THEN conjunct1]
    by (simp add: pasta_def float_eval)
  moreover have "get_battle_score burger \<lparr>combatants = []\<rparr> =
      (Inr (Finite 61), \<lparr>combatants = []\<rparr>)"
    using get_battle_score_formula [of burger "\<lparr>combatants = []\<rparr>",
        THEN conjunct2, THEN conjunct2, THEN conjunct1]
    by (simp add: burger_def float_eval)
  moreover have "get_battle_score dal \<lparr>combatants = []\<rparr> =
      (Inr (Finite (6305039478318695 / 1125899906842624)), \<lparr>combatants = []\<rparr>)"
    using get_battle_score_formula [of dal "\<lparr>combatants = []\<rparr>", THEN conjunct1]
    by (simp add: dal_def float_eval)
  moreover have "get_battle_score (dal\<lparr>price := binary64 0.1\<rparr>) \<lparr>combatants = []\<rparr> =
      (Inr (Finite (- (900719925474099 / 2251799813685248))), \<lparr>combatants = []\<rparr>)"
    using get_battle_score_formula [of "dal\<lparr>price := binary64 0.1\<rparr>" "\<lparr>combatants = []\<rparr>",
        THEN conjunct1]
    by (simp add: dal_def float_eval)
  moreover have
    "fst (get_battle_score (dal\<lparr>id' := 9, meal := ''Dal makhani''\<rparr>) \<lparr>combatants = [dal]\<rparr>) =
     fst (get_battle_score dal \<lparr>combatants = []\<rparr>)"
    using get_battle_score_formula [of dal "\<lparr>combatants = []\<rparr>", THEN conjunct2,
        THEN conjunct2, THEN conjunct2, THEN spec, THEN spec,
        of "dal\<lparr>id' := 9, meal := ''Dal makhani''\<rparr>" "\<lparr>combatants = [dal]\<rparr>"]
    by simp
  ultimately show ?thesis by simp
qed

section \<open>The winner of a battle\<close>

text \<open>
  C1. Two combatants \<open>c1\<close> (index 0) and \<open>c2\<close> (index 1) with valid difficulties have
  scores, and for every float \<open>r\<close> drawn (in particular every \<open>r\<close> of the unit interval)
  the winner of \<open>battle\<close> is \<open>c1\<close> if \<open>delta\<close>, which is \<^verbatim>\<open>abs(score_1 - score_2) / 100\<close> in
  float arithmetic, is greater than \<open>r\<close>, and \<open>c2\<close> otherwise, so also when \<open>delta\<close> equals
  \<open>r\<close>. The first persistence call records a win for that winner's identifier, whatever
  the persistence function does; and when the two persistence calls succeed, \<open>battle\<close>
  returns that winner's name. (A persistence call that raises ends the method with its
  error; that is C3.)
\<close>

theorem battle_winner:
  assumes "difficulty c1 \<in> {''LOW'', ''MED'', ''HIGH''}"
    and "difficulty c2 \<in> {''LOW'', ''MED'', ''HIGH''}"
  shows "\<exists>score_1 score_2 delta winner loser.
           fst (get_battle_score c1 \<lparr>combatants = [c1, c2]\<rparr>) = Inr score_1 \<and>
           fst (get_battle_score c2 \<lparr>combatants = [c1, c2]\<rparr>) = Inr score_2 \<and>
           delta = float_div (float_abs (float_sub score_1 score_2)) (Finite 100) \<and>
           winner = (if float_greater delta r then c1 else c2) \<and>
           loser = (if float_greater delta r then c2 else c1) \<and>
           (\<forall>store1 store2.
              update_stats (id' winner) ''win'' store = (Inr (), store1) \<and>
              update_stats (id' loser) ''loss'' store1 = (Inr (), store2) \<longrightarrow>
              fst (battle update_stats (Inr r) \<lparr>combatants = [c1, c2]\<rparr> store) = Inr (meal winner)) \<and>
           (\<exists>later. fst (snd (snd (battle (spy update_stats) (Inr r) \<lparr>combatants = [c1, c2]\<rparr>
                                      (calls, store)))) = calls @ (id' winner, ''win'') # later)"
proof -
  let ?self = "\<lparr>combatants = [c1, c2]\<rparr>"
  obtain score_1 where s1: "get_battle_score c1 ?self = (Inr score_1, ?self)"
    using get_battle_score_valid [OF assms(1)] by blast
  obtain score_2 where s2: "get_battle_score c2 ?self = (Inr score_2, ?self)"
    using get_battle_score_valid [OF assms(2)] by blast
  have pool: "combatants ?self = [c1, c2]" by simp
  let ?delta = "float_div (float_abs (float_sub score_1 score_2)) (Finite 100)"
  let ?winner = "if float_greater ?delta r then c1 else c2"
  let ?loser = "if float_greater ?delta r then c2 else c1"
  have returns: "fst (battle update_stats (Inr r) ?self store) = Inr (meal ?winner)"
    if "update_stats (id' ?winner) ''win'' store = (Inr (), store1) \<and>
        update_stats (id' ?loser) ''loss'' store1 = (Inr (), store2)" for store1 store2
    using that by (simp add: battle_two [OF pool s1 s2] Let_def)
  have "\<exists>later. fst (snd (snd (battle (spy update_stats) (Inr r) ?self (calls, store)))) =
          calls @ (id' ?winner, ''win'') # later"
    by (simp add: battle_two [OF pool s1 s2] Let_def spy_apply split: prod.splits sum.splits)
  moreover have "fst (get_battle_score c1 ?self) = Inr score_1"
    "fst (get_battle_score c2 ?self) = Inr score_2"
    by (simp_all add: s1 s2)
  ultimately show ?thesis using returns by blast
qed

text \<open>
  The example of the spec: scores 85.5 and 61, so \<open>delta\<close> is the float 0.245. With
  \<open>r = 0.1\<close> the first combatant wins, with \<open>r = 0.3\<close> and at the tie \<open>r = 0.245\<close> the
  second. For Dal and Naan \<open>delta\<close> is 0.04000000000000001, which is greater than
  \<open>r = 0.04\<close>: the first combatant wins.
\<close>

theorem battle_winner_witness:
  "fst (battle update_meal_stats (Inr (binary64 0.1)) \<lparr>combatants = [pasta, burger]\<rparr> kitchen) =
     Inr ''Pasta'' \<and>
   fst (battle update_meal_stats (Inr (binary64 0.3)) \<lparr>combatants = [pasta, burger]\<rparr> kitchen) =
     Inr ''Burger'' \<and>
   fst (battle update_meal_stats (Inr (binary64 0.245)) \<lparr>combatants = [pasta, burger]\<rparr> kitchen) =
     Inr ''Burger'' \<and>
   fst (battle update_meal_stats (Inr (binary64 0.04)) \<lparr>combatants = [dal, naan]\<rparr> kitchen) =
     Inr ''Dal''"
proof -
  have first: "fst (battle update_meal_stats (Inr r) \<lparr>combatants = [c1, c2]\<rparr> kitchen) =
      Inr (meal c1)"
    if valid: "difficulty c1 \<in> {''LOW'', ''MED'', ''HIGH''}"
        "difficulty c2 \<in> {''LOW'', ''MED'', ''HIGH''}"
      and scores: "\<And>self. get_battle_score c1 self = (Inr s1, self)"
        "\<And>self. get_battle_score c2 self = (Inr s2, self)"
      and greater: "float_greater (float_div (float_abs (float_sub s1 s2)) (Finite 100)) r"
      and stored: "fst (update_meal_stats (id' c1) ''win'' kitchen) = Inr ()"
        "fst (update_meal_stats (id' c2) ''loss''
               (snd (update_meal_stats (id' c1) ''win'' kitchen))) = Inr ()"
    for c1 c2 r s1 s2
  proof -
    from battle_winner [OF valid, of r update_meal_stats kitchen "[]"]
    obtain score_1 score_2 delta winner loser where
      "fst (get_battle_score c1 \<lparr>combatants = [c1, c2]\<rparr>) = Inr score_1"
      "fst (get_battle_score c2 \<lparr>combatants = [c1, c2]\<rparr>) = Inr score_2"
      "delta = float_div (float_abs (float_sub score_1 score_2)) (Finite 100)"
      "winner = (if float_greater delta r then c1 else c2)"
      "loser = (if float_greater delta r then c2 else c1)"
      and returns: "\<And>store1 store2.
        update_meal_stats (id' winner) ''win'' kitchen = (Inr (), store1) \<and>
        update_meal_stats (id' loser) ''loss'' store1 = (Inr (), store2) \<Longrightarrow>
        fst (battle update_meal_stats (Inr r) \<lparr>combatants = [c1, c2]\<rparr> kitchen) =
          Inr (meal winner)"
      by blast
    with scores greater have "winner = c1" "loser = c2" by simp_all
    with returns [of "snd (update_meal_stats (id' c1) ''win'' kitchen)"
        "snd (update_meal_stats (id' c2) ''loss''
               (snd (update_meal_stats (id' c1) ''win'' kitchen)))"]
      stored
    show ?thesis by (simp add: prod_eq_iff)
  qed
  have second: "fst (battle update_meal_stats (Inr r) \<lparr>combatants = [c1, c2]\<rparr> kitchen) =
      Inr (meal c2)"
    if valid: "difficulty c1 \<in> {''LOW'', ''MED'', ''HIGH''}"
        "difficulty c2 \<in> {''LOW'', ''MED'', ''HIGH''}"
      and scores: "\<And>self. get_battle_score c1 self = (Inr s1, self)"
        "\<And>self. get_battle_score c2 self = (Inr s2, self)"
      and not_greater: "\<not> float_greater (float_div (float_abs (float_sub s1 s2)) (Finite 100)) r"
      and stored: "fst (update_meal_stats (id' c2) ''win'' kitchen) = Inr ()"
        "fst (update_meal_stats (id' c1) ''loss''
               (snd (update_meal_stats (id' c2) ''win'' kitchen))) = Inr ()"
    for c1 c2 r s1 s2
  proof -
    from battle_winner [OF valid, of r update_meal_stats kitchen "[]"]
    obtain score_1 score_2 delta winner loser where
      "fst (get_battle_score c1 \<lparr>combatants = [c1, c2]\<rparr>) = Inr score_1"
      "fst (get_battle_score c2 \<lparr>combatants = [c1, c2]\<rparr>) = Inr score_2"
      "delta = float_div (float_abs (float_sub score_1 score_2)) (Finite 100)"
      "winner = (if float_greater delta r then c1 else c2)"
      "loser = (if float_greater delta r then c2 else c1)"
      and returns: "\<And>store1 store2.
        update_meal_stats (id' winner) ''win'' kitchen = (Inr (), store1) \<and>
        update_meal_stats (id' loser) ''loss'' store1 = (Inr (), store2) \<Longrightarrow>
        fst (battle update_meal_stats (Inr r) \<lparr>combatants = [c1, c2]\<rparr> kitchen) =
          Inr (meal winner)"
      by blast
    with scores not_greater have "winner = c2" "loser = c1" by simp_all
    with returns [of "snd (update_meal_stats (id' c2) ''win'' kitchen)"
        "snd (update_meal_stats (id' c1) ''loss''
               (snd (update_meal_stats (id' c2) ''win'' kitchen)))"]
      stored
    show ?thesis by (simp add: prod_eq_iff)
  qed
  have "fst (battle update_meal_stats (Inr (binary64 0.1)) \<lparr>combatants = [pasta, burger]\<rparr>
      kitchen) = Inr ''Pasta''"
    using first [OF valid_difficulties(1,2) score_pasta score_burger comparisons(1)]
    by (simp add: ids names kitchen_updates)
  moreover have "fst (battle update_meal_stats (Inr (binary64 0.3))
      \<lparr>combatants = [pasta, burger]\<rparr> kitchen) = Inr ''Burger''"
    using second [OF valid_difficulties(1,2) score_pasta score_burger comparisons(2)]
    by (simp add: ids names kitchen_updates)
  moreover have "fst (battle update_meal_stats (Inr (binary64 0.245))
      \<lparr>combatants = [pasta, burger]\<rparr> kitchen) = Inr ''Burger''"
    using second [OF valid_difficulties(1,2) score_pasta score_burger comparisons(3)]
    by (simp add: ids names kitchen_updates)
  moreover have "fst (battle update_meal_stats (Inr (binary64 0.04)) \<lparr>combatants = [dal, naan]\<rparr>
      kitchen) = Inr ''Dal''"
    using first [OF valid_difficulties(4,5) score_dal score_naan comparisons(4)]
    by (simp add: ids names kitchen_updates)
  ultimately show ?thesis by blast
qed

section \<open>A persistence call that raises\<close>

text \<open>
  C3. In a battle of two combatants, if the persistence call for the winner raises, or
  it succeeds and the call for the loser raises, \<open>battle\<close> raises that same error and
  the model still holds both combatants, in their order. The store is what the failing
  call left: after a failure of the second call, the winner's win stays recorded.
\<close>

theorem battle_persistence_error:
  assumes "fst (get_battle_score c1 \<lparr>combatants = [c1, c2]\<rparr>) = Inr score_1"
    and "fst (get_battle_score c2 \<lparr>combatants = [c1, c2]\<rparr>) = Inr score_2"
    and "delta = float_div (float_abs (float_sub score_1 score_2)) (Finite 100)"
    and "winner = (if float_greater delta r then c1 else c2)"
    and "loser = (if float_greater delta r then c2 else c1)"
  shows "(update_stats (id' winner) ''win'' store = (Inl e, store1) \<longrightarrow>
            battle update_stats (Inr r) \<lparr>combatants = [c1, c2]\<rparr> store =
              (Inl e, \<lparr>combatants = [c1, c2]\<rparr>, store1)) \<and>
         (update_stats (id' winner) ''win'' store = (Inr (), store1) \<and>
          update_stats (id' loser) ''loss'' store1 = (Inl e, store2) \<longrightarrow>
            battle update_stats (Inr r) \<lparr>combatants = [c1, c2]\<rparr> store =
              (Inl e, \<lparr>combatants = [c1, c2]\<rparr>, store2))"
proof -
  have pool: "combatants \<lparr>combatants = [c1, c2]\<rparr> = [c1, c2]" by simp
  show ?thesis
    using assms(3,4,5)
    by (simp add: battle_two [OF pool assms(1,2) [THEN get_battle_score_pair]] Let_def)
qed

theorem battle_persistence_error_witness:
  "battle update_meal_stats (Inr (binary64 0.1)) \<lparr>combatants = [sushi, pasta]\<rparr> kitchen =
     (Inl (ValueError (Has_been_deleted 3)), \<lparr>combatants = [sushi, pasta]\<rparr>,
      kitchen\<lparr>executed := [SELECT_deleted_WHERE_id 3]\<rparr>) \<and>
   fst (battle update_meal_stats (Inr (binary64 0.5)) \<lparr>combatants = [sushi, pasta]\<rparr> kitchen) =
     Inl (ValueError (Has_been_deleted 3)) \<and>
   fst (snd (battle update_meal_stats (Inr (binary64 0.5)) \<lparr>combatants = [sushi, pasta]\<rparr>
              kitchen)) =
     \<lparr>combatants = [sushi, pasta]\<rparr>"
proof -
  let ?delta = "float_div (float_abs (float_sub (Finite 119) (Finite 85.5))) (Finite 100)"
  have early: "sushi = (if float_greater ?delta (binary64 0.1) then sushi else pasta)"
    and early': "pasta = (if float_greater ?delta (binary64 0.1) then pasta else sushi)"
    and late: "pasta = (if float_greater ?delta (binary64 0.5) then sushi else pasta)"
    and late': "sushi = (if float_greater ?delta (binary64 0.5) then pasta else sushi)"
    using comparisons(5,6) by simp_all
  have scores: "fst (get_battle_score sushi \<lparr>combatants = [sushi, pasta]\<rparr>) = Inr (Finite 119)"
    "fst (get_battle_score pasta \<lparr>combatants = [sushi, pasta]\<rparr>) = Inr (Finite 85.5)"
    by (simp_all add: score_sushi score_pasta)
  have win_fails: "update_meal_stats (id' sushi) ''win'' kitchen =
      (Inl (ValueError (Has_been_deleted 3)), kitchen\<lparr>executed := [SELECT_deleted_WHERE_id 3]\<rparr>)"
    by (simp add: ids kitchen_updates(5))
  have loss_fails: "update_meal_stats (id' pasta) ''win'' kitchen =
        (Inr (), snd (update_meal_stats 1 ''win'' kitchen)) \<and>
      update_meal_stats (id' sushi) ''loss'' (snd (update_meal_stats 1 ''win'' kitchen)) =
        (Inl (ValueError (Has_been_deleted 3)),
         snd (update_meal_stats 3 ''loss'' (snd (update_meal_stats 1 ''win'' kitchen))))"
    using kitchen_updates(1,6) by (simp add: ids prod_eq_iff)
  from battle_persistence_error [where update_stats = update_meal_stats and store = kitchen,
      OF scores refl early early', THEN conjunct1] win_fails
  have "battle update_meal_stats (Inr (binary64 0.1)) \<lparr>combatants = [sushi, pasta]\<rparr> kitchen =
     (Inl (ValueError (Has_been_deleted 3)), \<lparr>combatants = [sushi, pasta]\<rparr>,
      kitchen\<lparr>executed := [SELECT_deleted_WHERE_id 3]\<rparr>)"
    by blast
  moreover
  from battle_persistence_error [where update_stats = update_meal_stats and store = kitchen,
      OF scores refl late late', THEN conjunct2] loss_fails
  have "battle update_meal_stats (Inr (binary64 0.5)) \<lparr>combatants = [sushi, pasta]\<rparr> kitchen =
     (Inl (ValueError (Has_been_deleted 3)), \<lparr>combatants = [sushi, pasta]\<rparr>,
      snd (update_meal_stats 3 ''loss'' (snd (update_meal_stats 1 ''win'' kitchen))))"
    by blast
  ultimately show ?thesis by simp
qed

section \<open>A battle that returns\<close>

text \<open>
  C4. If \<open>battle\<close> returns from a model of exactly two combatants, both scores existed and
  a number was drawn, the name returned is the winner's, the model afterwards holds the
  winner and nothing else (so its size is 1), and the persistence function was called
  exactly twice: first with the winner's identifier and \<^verbatim>\<open>'win'\<close>, then with the loser's
  and \<^verbatim>\<open>'loss'\<close>; both calls succeeded, the second on the store the first one left.
\<close>

theorem battle_success:
  assumes "battle (spy update_stats) random \<lparr>combatants = [c1, c2]\<rparr> (calls, store) =
             (Inr name, self', calls', store')"
  shows "\<exists>score_1 score_2 r delta winner loser.
           fst (get_battle_score c1 \<lparr>combatants = [c1, c2]\<rparr>) = Inr score_1 \<and>
           fst (get_battle_score c2 \<lparr>combatants = [c1, c2]\<rparr>) = Inr score_2 \<and>
           random = Inr r \<and>
           delta = float_div (float_abs (float_sub score_1 score_2)) (Finite 100) \<and>
           winner = (if float_greater delta r then c1 else c2) \<and>
           loser = (if float_greater delta r then c2 else c1) \<and>
           name = meal winner \<and>
           self' = \<lparr>combatants = [winner]\<rparr> \<and> length (combatants self') = 1 \<and>
           calls' = calls @ [(id' winner, ''win''), (id' loser, ''loss'')] \<and>
           (\<exists>store1. update_stats (id' winner) ''win'' store = (Inr (), store1) \<and>
                     update_stats (id' loser) ''loss'' store1 = (Inr (), store'))"
proof -
  let ?self = "\<lparr>combatants = [c1, c2]\<rparr>"
  have pool: "combatants ?self = [c1, c2]" by simp
  from pool assms obtain score_1 score_2 r where
    s1: "get_battle_score c1 ?self = (Inr score_1, ?self)" and
    s2: "get_battle_score c2 ?self = (Inr score_2, ?self)" and
    r: "random = Inr r"
    by (rule battle_returns)
  have "fst (get_battle_score c1 ?self) = Inr score_1" "fst (get_battle_score c2 ?self) = Inr score_2"
    by (simp_all add: s1 s2)
  then show ?thesis
    using assms unfolding r battle_two [OF pool s1 s2]
    by (auto simp add: r Let_def spy_apply split: prod.splits sum.splits if_splits)
qed

theorem battle_success_witness:
  "\<exists>self' calls' store'.
     battle (spy update_meal_stats) (Inr (binary64 0.3)) \<lparr>combatants = [pasta, burger]\<rparr>
         ([], kitchen) =
       (Inr ''Burger'', self', calls', store') \<and>
     self' = \<lparr>combatants = [burger]\<rparr> \<and> length (combatants self') = 1 \<and>
     calls' = [(2, ''win''), (1, ''loss'')]"
proof -
  let ?run = "battle (spy update_meal_stats) (Inr (binary64 0.3)) \<lparr>combatants = [pasta, burger]\<rparr>
      ([], kitchen)"
  have pool: "combatants \<lparr>combatants = [pasta, burger]\<rparr> = [pasta, burger]" by simp
  note comparisons(2)
  moreover obtain k1 where k1: "update_meal_stats 2 ''win'' kitchen = (Inr (), k1)"
    using kitchen_updates(3) by (metis prod.collapse)
  moreover obtain k2 where "update_meal_stats 1 ''loss'' k1 = (Inr (), k2)"
    using kitchen_updates(4) k1 by (metis prod.collapse snd_conv)
  ultimately have "fst ?run = Inr ''Burger''"
    by (simp add: battle_two [OF pool score_pasta score_burger] spy_apply ids names)
  then have run: "?run = (Inr ''Burger'', fst (snd ?run), fst (snd (snd ?run)), snd (snd (snd ?run)))"
    by (simp add: prod_eq_iff)
  from battle_success [OF run] obtain score_1 score_2 r delta winner loser where
    scores: "fst (get_battle_score pasta \<lparr>combatants = [pasta, burger]\<rparr>) = Inr score_1"
      "fst (get_battle_score burger \<lparr>combatants = [pasta, burger]\<rparr>) = Inr score_2"
    and drawn: "Inr (binary64 0.3) = (Inr r :: error + float)"
    and outcome: "delta = float_div (float_abs (float_sub score_1 score_2)) (Finite 100)"
      "winner = (if float_greater delta r then pasta else burger)"
      "loser = (if float_greater delta r then burger else pasta)"
    and after: "fst (snd ?run) = \<lparr>combatants = [winner]\<rparr>"
      "length (combatants (fst (snd ?run))) = 1"
      "fst (snd (snd ?run)) = [] @ [(id' winner, ''win''), (id' loser, ''loss'')]"
    by blast
  from scores drawn have "score_1 = Finite 85.5" "score_2 = Finite 61" "r = binary64 0.3"
    by (simp_all add: score_pasta score_burger)
  with outcome comparisons(2) have "winner = burger" "loser = pasta"
    by simp_all
  with after run show ?thesis
    by (simp add: ids) metis
qed

section \<open>Fewer than two combatants\<close>

text \<open>
  C5. With no combatant or one, \<open>battle\<close> raises \<^verbatim>\<open>ValueError\<close> with the message "Two
  combatants must be prepped for a battle.", and leaves the model and the store as they
  were. The persistence function is never called: the list of the spy's calls is
  unchanged, and the outcome is the same for every persistence function and every
  outcome of \<^verbatim>\<open>get_random\<close>.
\<close>

theorem battle_too_few:
  assumes "length (combatants self) < 2"
  shows "battle update_stats random self store =
           (Inl (ValueError Two_combatants_must_be_prepped), self, store) \<and>
         battle (spy update_stats) random self (calls, store) =
           (Inl (ValueError Two_combatants_must_be_prepped), self, calls, store)"
  using assms by (simp add: battle_def)

theorem battle_too_few_witness:
  "battle update_meal_stats (Inr (binary64 0.1)) \<lparr>combatants = []\<rparr> kitchen =
     (Inl (ValueError Two_combatants_must_be_prepped), \<lparr>combatants = []\<rparr>, kitchen) \<and>
   battle (spy update_meal_stats) (Inr (binary64 0.1)) \<lparr>combatants = [pasta]\<rparr> ([], kitchen) =
     (Inl (ValueError Two_combatants_must_be_prepped), \<lparr>combatants = [pasta]\<rparr>, [], kitchen)"
proof -
  have none: "length (combatants \<lparr>combatants = []\<rparr>) < 2" by simp
  have one: "length (combatants \<lparr>combatants = [pasta]\<rparr>) < 2" by simp
  from battle_too_few [OF none, where update_stats = update_meal_stats
        and random = "Inr (binary64 0.1)" and store = kitchen]
    battle_too_few [OF one, where update_stats = update_meal_stats
        and random = "Inr (binary64 0.1)" and store = kitchen and calls = "[]"]
  show ?thesis by blast
qed

section \<open>The size of the pool\<close>

text \<open>
  C6. The list of combatants never holds more than two meals. \<open>prep_combatant\<close> raises
  "Combatant list is full" when the list holds two meals (or more) and leaves it as it
  is, and appends the meal otherwise; \<open>clear_combatants\<close> empties the list whatever it
  holds; a \<open>battle\<close> that returns from a list of two leaves a list of one. Hence after
  every sequence of calls on a new \<^verbatim>\<open>BattleModel\<close>, whatever they return or raise and
  whatever the persistence function does, the list holds 0, 1 or 2 meals.
\<close>

theorem pool_holds_at_most_two:
  "(length (combatants self) \<ge> 2 \<longrightarrow>
      prep_combatant combatant_data self = (Inl (ValueError Combatant_list_is_full), self)) \<and>
   (length (combatants self) < 2 \<longrightarrow>
      prep_combatant combatant_data self =
        (Inr (), \<lparr>combatants = combatants self @ [combatant_data]\<rparr>)) \<and>
   combatants (snd (clear_combatants self)) = [] \<and>
   (\<forall>name self' store'.
      length (combatants self) = 2 \<and>
      battle update_stats random self store = (Inr name, self', store') \<longrightarrow>
      length (combatants self') = 1) \<and>
   length (combatants (fst (run update_stats operations (BattleModel_init, store))))
     \<in> {0, 1, 2}"
proof -
  have full: "length (combatants self) \<ge> 2 \<longrightarrow>
      prep_combatant combatant_data self = (Inl (ValueError Combatant_list_is_full), self)"
    by (simp add: prep_combatant_def)
  have room: "length (combatants self) < 2 \<longrightarrow>
      prep_combatant combatant_data self =
        (Inr (), \<lparr>combatants = combatants self @ [combatant_data]\<rparr>)"
    by (simp add: prep_combatant_def)
  have clear: "combatants (snd (clear_combatants self)) = []"
    by (simp add: clear_combatants_def)
  have resolved: "length (combatants self') = 1"
    if "length (combatants self) = 2 \<and>
        battle update_stats random self store = (Inr name, self', store')"
    for name self' store'
  proof -
    from that obtain c1 c2 where pool: "combatants self = [c1, c2]"
      by (cases "combatants self" rule: list.exhaust; simp)
         (metis length_0_conv length_Suc_conv)
    from that have run: "battle update_stats random self store = (Inr name, self', store')"
      by simp
    from pool run obtain score_1 score_2 r where
      s1: "get_battle_score c1 self = (Inr score_1, self)" and
      s2: "get_battle_score c2 self = (Inr score_2, self)" and
      r: "random = Inr r"
      by (rule battle_returns)
    show ?thesis
      using run unfolding r battle_two [OF pool s1 s2]
      by (auto simp add: Let_def split: prod.splits sum.splits if_splits)
  qed
  have "length (combatants (fst (run update_stats operations (BattleModel_init, store)))) \<le> 2"
    by (rule run_keeps_bound) (simp add: BattleModel_init_def)
  moreover have "n \<in> {0, 1, 2}" if "n \<le> 2" for n :: nat
    using that by (auto simp add: le_Suc_eq numeral_2_eq_2)
  ultimately have bound:
    "length (combatants (fst (run update_stats operations (BattleModel_init, store)))) \<in> {0, 1, 2}"
    by blast
  from full room clear resolved bound show ?thesis by blast
qed

theorem pool_holds_at_most_two_witness:
  "prep_combatant sushi \<lparr>combatants = [pasta, burger]\<rparr> =
     (Inl (ValueError Combatant_list_is_full), \<lparr>combatants = [pasta, burger]\<rparr>) \<and>
   prep_combatant burger \<lparr>combatants = [pasta]\<rparr> = (Inr (), \<lparr>combatants = [pasta, burger]\<rparr>) \<and>
   combatants (snd (clear_combatants \<lparr>combatants = [pasta, burger]\<rparr>)) = [] \<and>
   length (combatants (fst (snd (battle update_meal_stats (Inr (binary64 0.1))
      \<lparr>combatants = [pasta, burger]\<rparr> kitchen)))) = 1 \<and>
   length (combatants (fst (run update_meal_stats
      [Prep_combatant pasta, Prep_combatant burger, Prep_combatant sushi,
       Battle (Inr (binary64 0.1)), Prep_combatant sushi, Get_combatants, Prep_combatant pasta,
       Battle (Inr (binary64 0.9)), Clear_combatants, Prep_combatant burger]
      (BattleModel_init, kitchen)))) \<in> {0, 1, 2}"
proof -
  let ?two = "\<lparr>combatants = [pasta, burger]\<rparr>"
  let ?one = "\<lparr>combatants = [pasta]\<rparr>"
  let ?run = "battle update_meal_stats (Inr (binary64 0.1)) ?two kitchen"
  have pool: "combatants ?two = [pasta, burger]" by simp
  have "prep_combatant sushi ?two = (Inl (ValueError Combatant_list_is_full), ?two)"
    using pool_holds_at_most_two [where self = ?two and combatant_data = sushi, THEN conjunct1]
    by simp
  moreover have "prep_combatant burger ?one = (Inr (), ?two)"
    using pool_holds_at_most_two [where self = ?one and combatant_data = burger, THEN conjunct2,
        THEN conjunct1]
    by simp
  moreover have "combatants (snd (clear_combatants ?two)) = []"
    using pool_holds_at_most_two [where self = ?two, THEN conjunct2, THEN conjunct2,
        THEN conjunct1]
    by simp
  moreover have "length (combatants (fst (snd ?run))) = 1"
  proof -
    note comparisons(1)
    moreover obtain k1 where k1: "update_meal_stats 1 ''win'' kitchen = (Inr (), k1)"
      using kitchen_updates(1) by (metis prod.collapse)
    moreover obtain k2 where "update_meal_stats 2 ''loss'' k1 = (Inr (), k2)"
      using kitchen_updates(2) k1 by (metis prod.collapse snd_conv)
    ultimately have "fst ?run = Inr ''Pasta''"
      by (simp add: battle_two [OF pool score_pasta score_burger] ids names)
    then have "length (combatants ?two) = 2 \<and>
        ?run = (Inr ''Pasta'', fst (snd ?run), snd (snd ?run))"
      by (simp add: prod_eq_iff)
    with pool_holds_at_most_two [where self = ?two and update_stats = update_meal_stats
        and random = "Inr (binary64 0.1)" and store = kitchen, THEN conjunct2, THEN conjunct2,
        THEN conjunct2, THEN conjunct1]
    show ?thesis by blast
  qed
  moreover have "length (combatants (fst (run update_meal_stats
      [Prep_combatant pasta, Prep_combatant burger, Prep_combatant sushi,
       Battle (Inr (binary64 0.1)), Prep_combatant sushi, Get_combatants, Prep_combatant pasta,
       Battle (Inr (binary64 0.9)), Clear_combatants, Prep_combatant burger]
      (BattleModel_init, kitchen)))) \<in> {0, 1, 2}"
    using pool_holds_at_most_two [where update_stats = update_meal_stats and store = kitchen,
        THEN conjunct2, THEN conjunct2, THEN conjunct2, THEN conjunct2]
    by blast
  ultimately show ?thesis by blast
qed

section \<open>The leaderboard\<close>

text \<open>
  C7. For a sort key other than \<^verbatim>\<open>"wins"\<close> and \<^verbatim>\<open>"win_pct"\<close>, \<open>get_leaderboard\<close> raises
  \<^verbatim>\<open>ValueError\<close> "Invalid sort_by parameter" and the database is as it was, the list of
  executed statements included: no query ran. For either of the two keys it returns
  one entry for each of exactly the rows that are not deleted and have a battle count
  above zero, each row as often as the table has it. The entry of a row has the row's
  identifier, name, cuisine, price, difficulty, battles and wins, and as its
  \<^verbatim>\<open>win_pct\<close> the float \<^verbatim>\<open>round(wins / battles * 100, 1)\<close>. By \<^verbatim>\<open>"wins"\<close> the entries descend
  in their wins. By \<^verbatim>\<open>"win_pct"\<close> no row has a greater quotient of wins and battles
  than a row before it, and no entry a greater \<^verbatim>\<open>win_pct\<close> than an entry before it. The
  table is unchanged.
\<close>

theorem get_leaderboard_correct:
  "(sort_by \<noteq> ''wins'' \<and> sort_by \<noteq> ''win_pct'' \<longrightarrow>
      get_leaderboard sort_by db = (Inl (ValueError (Invalid_sort_by sort_by)), db)) \<and>
   (sort_by = ''wins'' \<or> sort_by = ''win_pct'' \<longrightarrow>
      (\<exists>rows board.
         fst (get_leaderboard sort_by db) = Inr board \<and>
         board =
           map (\<lambda>r. \<lparr>entry_id = sint (row_id r), entry_meal = row_meal r,
                      entry_cuisine = row_cuisine r, entry_price = row_price r,
                      entry_difficulty = row_difficulty r, entry_battles = battles r,
                      entry_wins = wins r,
                      entry_win_pct =
                        py_round (float_mul (float_div (float_of_int (wins r))
                                               (float_of_int (battles r)))
                                    (Finite 100)) 1\<rparr>)
             rows \<and>
         mset rows = mset (filter (\<lambda>r. \<not> deleted r \<and> battles r > 0) (meals db)) \<and>
         (sort_by = ''wins'' \<longrightarrow> sorted_wrt (\<ge>) (map entry_wins board)) \<and>
         (sort_by = ''win_pct'' \<longrightarrow>
            sorted_wrt
              (\<lambda>a b. \<not> float_greater
                         (float_div (float_of_int (wins b)) (float_of_int (battles b)))
                         (float_div (float_of_int (wins a)) (float_of_int (battles a))))
              rows \<and>
            sorted_wrt (\<lambda>a b. \<not> float_greater (entry_win_pct b) (entry_win_pct a)) board)) \<and>
      meals (snd (get_leaderboard sort_by db)) = meals db)"
proof -
  let ?live = "filter (\<lambda>r. \<not> deleted r \<and> battles r > 0) (meals db)"
  let ?quotient = "\<lambda>r. float_div (float_of_int (wins r)) (float_of_int (battles r))"
  let ?entry = "\<lambda>r. \<lparr>entry_id = sint (row_id r), entry_meal = row_meal r,
      entry_cuisine = row_cuisine r, entry_price = row_price r,
      entry_difficulty = row_difficulty r, entry_battles = battles r, entry_wins = wins r,
      entry_win_pct = py_round (float_mul (?quotient r) (Finite 100)) 1\<rparr>"
  have entry: "entry_of = ?entry"
    by (rule ext) (rule entry_of_eq)
  have invalid: "get_leaderboard sort_by db = (Inl (ValueError (Invalid_sort_by sort_by)), db)"
    if "sort_by \<noteq> ''wins'' \<and> sort_by \<noteq> ''win_pct''"
    using that by (simp add: get_leaderboard_def)
  have wins_case: ?thesis if key: "sort_by = ''wins''"
  proof -
    let ?rows = "sort_key (\<lambda>r. - wins r) ?live"
    have "fst (get_leaderboard sort_by db) = Inr (map ?entry ?rows)"
      unfolding key by (simp add: get_leaderboard_eq entry)
    moreover have "mset ?rows = mset ?live" by simp
    moreover have "sorted_wrt (\<ge>) (map entry_wins (map ?entry ?rows))"
      using sorted_descending [of wins ?live] by (simp add: sorted_wrt_map)
    moreover have "meals (snd (get_leaderboard sort_by db)) = meals db"
      unfolding key by (simp add: get_leaderboard_eq)
    ultimately show ?thesis unfolding key by blast
  qed
  have pct_case: ?thesis if key: "sort_by = ''win_pct''"
  proof -
    let ?rows = "sort_key (\<lambda>r. descending (win_pct r)) ?live"
    have "fst (get_leaderboard sort_by db) = Inr (map ?entry ?rows)"
      unfolding key by (simp add: get_leaderboard_eq entry)
    moreover have "mset ?rows = mset ?live" by simp
    moreover have ratio: "sorted_wrt (\<lambda>a b. \<not> float_greater (?quotient b) (?quotient a)) ?rows"
      using sorted_by_win_pct [of ?live] by (simp add: win_pct_eq)
    moreover have "sorted_wrt (\<lambda>a b. \<not> float_greater (entry_win_pct b) (entry_win_pct a))
        (map ?entry ?rows)"
      unfolding sorted_wrt_map using ratio
      by (rule sorted_wrt_mono_rel [rotated]) (simp add: float_mul_mono py_round_mono)
    moreover have "meals (snd (get_leaderboard sort_by db)) = meals db"
      unfolding key by (simp add: get_leaderboard_eq)
    ultimately show ?thesis unfolding key by blast
  qed
  from invalid wins_case pct_case show ?thesis by blast
qed

text \<open>
  In the example table 10 of 20 battles won are 50.0, 8 of 15 are 53.3, 23 of 80 are
  28.7 and 49 of 80 are 61.3; the meal without battles and the deleted meal are left
  out.
\<close>

theorem get_leaderboard_correct_witness:
  "get_leaderboard ''name'' kitchen = (Inl (ValueError (Invalid_sort_by ''name'')), kitchen) \<and>
   (\<exists>board. fst (get_leaderboard ''wins'' kitchen) = Inr board \<and>
      mset (map (\<lambda>e. (entry_meal e, entry_win_pct e)) board) =
        {#(''Pasta'', Finite 50), (''Burger'', Finite (3750654064669491 / 70368744177664)),
          (''Dal'', Finite (8078331831595827 / 281474976710656)),
          (''Naan'', Finite (4313604018090803 / 70368744177664))#} \<and>
      sorted_wrt (\<ge>) (map entry_wins board)) \<and>
   (\<exists>board. fst (get_leaderboard ''win_pct'' kitchen) = Inr board \<and>
      mset (map (\<lambda>e. (entry_meal e, entry_win_pct e)) board) =
        {#(''Pasta'', Finite 50), (''Burger'', Finite (3750654064669491 / 70368744177664)),
          (''Dal'', Finite (8078331831595827 / 281474976710656)),
          (''Naan'', Finite (4313604018090803 / 70368744177664))#} \<and>
      sorted_wrt (\<lambda>a b. \<not> float_greater (entry_win_pct b) (entry_win_pct a)) board) \<and>
   map entry_meal (projr (fst (get_leaderboard ''win_pct'' kitchen))) =
     [''Naan'', ''Burger'', ''Pasta'', ''Dal''] \<and>
   map entry_meal (projr (fst (get_leaderboard ''wins'' kitchen))) =
     [''Naan'', ''Dal'', ''Pasta'', ''Burger'']"
proof -
  let ?entry = "\<lambda>r. \<lparr>entry_id = sint (row_id r), entry_meal = row_meal r,
      entry_cuisine = row_cuisine r, entry_price = row_price r,
      entry_difficulty = row_difficulty r, entry_battles = battles r, entry_wins = wins r,
      entry_win_pct =
        py_round (float_mul (float_div (float_of_int (wins r)) (float_of_int (battles r)))
                    (Finite 100)) 1\<rparr>"
  let ?pair = "\<lambda>e. (entry_meal e, entry_win_pct e)"
  let ?pairs = "{#(''Pasta'', Finite 50), (''Burger'', Finite (3750654064669491 / 70368744177664)),
      (''Dal'', Finite (8078331831595827 / 281474976710656)),
      (''Naan'', Finite (4313604018090803 / 70368744177664))#}"
  have entry: "?entry = entry_of"
    by (rule ext) (rule entry_of_eq [symmetric])
  have pairs: "mset (map ?pair (map ?entry rows)) = ?pairs"
    if "mset rows = mset (filter (\<lambda>r. \<not> deleted r \<and> battles r > 0) (meals kitchen))" for rows
  proof -
    have "mset (map ?pair (map ?entry rows)) = image_mset (\<lambda>r. ?pair (entry_of r)) (mset rows)"
      unfolding entry by (simp add: multiset.map_comp comp_def)
    also have "\<dots> = ?pairs"
      unfolding that kitchen_live
      by (simp add: entry_of_simps(1) kitchen_percentages kitchen_columns)
    finally show ?thesis .
  qed
  have "get_leaderboard ''name'' kitchen = (Inl (ValueError (Invalid_sort_by ''name'')), kitchen)"
    using get_leaderboard_correct [of "''name''" kitchen, THEN conjunct1] by simp
  moreover have "\<exists>board. fst (get_leaderboard ''wins'' kitchen) = Inr board \<and>
      mset (map ?pair board) = ?pairs \<and> sorted_wrt (\<ge>) (map entry_wins board)"
  proof -
    from get_leaderboard_correct [of "''wins''" kitchen, THEN conjunct2]
    obtain rows board where "fst (get_leaderboard ''wins'' kitchen) = Inr board"
      and "board = map ?entry rows"
      and "mset rows = mset (filter (\<lambda>r. \<not> deleted r \<and> battles r > 0) (meals kitchen))"
      and "sorted_wrt (\<ge>) (map entry_wins board)"
      by auto
    with pairs show ?thesis by blast
  qed
  moreover have "\<exists>board. fst (get_leaderboard ''win_pct'' kitchen) = Inr board \<and>
      mset (map ?pair board) = ?pairs \<and>
      sorted_wrt (\<lambda>a b. \<not> float_greater (entry_win_pct b) (entry_win_pct a)) board"
  proof -
    from get_leaderboard_correct [of "''win_pct''" kitchen, THEN conjunct2]
    obtain rows board where "fst (get_leaderboard ''win_pct'' kitchen) = Inr board"
      and "board = map ?entry rows"
      and "mset rows = mset (filter (\<lambda>r. \<not> deleted r \<and> battles r > 0) (meals kitchen))"
      and "sorted_wrt (\<lambda>a b. \<not> float_greater (entry_win_pct b) (entry_win_pct a)) board"
      by auto
    with pairs show ?thesis by blast
  qed
  ultimately show ?thesis by (simp add: kitchen_board)
qed

section \<open>A soft-deleted meal\<close>

text \<open>
  C8. If the row that a lookup by identifier finds has its deleted flag set, each of
  \<open>update_meal_stats\<close> (with any outcome label), \<open>get_meal_by_id\<close> and \<open>delete_meal\<close>
  raises \<^verbatim>\<open>ValueError\<close> "Meal with ID ... has been deleted" and leaves the table as it was.
\<close>

theorem deleted_meal_is_gone:
  assumes "find (\<lambda>r. sint (row_id r) = meal_id) (meals db) = Some r"
    and "deleted r"
  shows "fst (update_meal_stats meal_id result db) = Inl (ValueError (Has_been_deleted meal_id)) \<and>
         meals (snd (update_meal_stats meal_id result db)) = meals db \<and>
         fst (get_meal_by_id meal_id db) = Inl (ValueError (Has_been_deleted meal_id)) \<and>
         meals (snd (get_meal_by_id meal_id db)) = meals db \<and>
         fst (delete_meal meal_id db) = Inl (ValueError (Has_been_deleted meal_id)) \<and>
         meals (snd (delete_meal meal_id db)) = meals db"
proof -
  from assms(1) have "bindable meal_id" by (rule find_bindable)
  with assms show ?thesis
    by (simp add: update_meal_stats_eq get_meal_by_id_eq delete_meal_eq)
qed

theorem deleted_meal_is_gone_witness:
  "find (\<lambda>r. sint (row_id r) = 3) (meals kitchen) = Some sushi_row \<and> deleted sushi_row \<and>
   fst (update_meal_stats 3 ''win'' kitchen) = Inl (ValueError (Has_been_deleted 3)) \<and>
   meals (snd (update_meal_stats 3 ''win'' kitchen)) = meals kitchen \<and>
   fst (get_meal_by_id 3 kitchen) = Inl (ValueError (Has_been_deleted 3)) \<and>
   meals (snd (get_meal_by_id 3 kitchen)) = meals kitchen \<and>
   fst (delete_meal 3 kitchen) = Inl (ValueError (Has_been_deleted 3)) \<and>
   meals (snd (delete_meal 3 kitchen)) = meals kitchen"
proof -
  have found: "find (\<lambda>r. sint (row_id r) = 3) (meals kitchen) = Some sushi_row"
    by (rule find_kitchen)
  have flag: "deleted sushi_row"
    by (simp add: sushi_row_def)
  show ?thesis
    using found flag deleted_meal_is_gone [OF found flag, of "''win''"] by simp
qed

section \<open>Construction of a meal\<close>

text \<open>
  C9. The claim is that no \<^verbatim>\<open>Meal\<close> with a price of zero or less is ever constructed. The
  check of \<^verbatim>\<open>__post_init__\<close> is \<^verbatim>\<open>self.price < 0\<close>, under a docstring that promises a
  positive value and with the message "Price must be a positive value."; \<^verbatim>\<open>create_meal\<close>
  tests \<^verbatim>\<open>price <= 0\<close>. So a meal of price zero is constructed.
\<close>

theorem Meal_init_accepts_price_zero:
  "Meal_init 5 ''Water'' ''None'' (Finite 0) ''LOW'' =
     Inr \<lparr>id' = 5, meal = ''Water'', cuisine = ''None'', price = Finite 0, difficulty = ''LOW''\<rparr>"
  by (simp add: Meal_init_def float_less_def)

section \<open>The order of the checks in the statistics update\<close>

text \<open>
  C10. \<open>update_meal_stats\<close> looks at the row before it looks at the outcome label. For
  an identifier that no row has it raises "not found", and for one whose row is deleted
  it raises "has been deleted", whatever the label is, a label other than \<^verbatim>\<open>'win'\<close> and
  \<^verbatim>\<open>'loss'\<close> included. Only for a row that exists and is not deleted does such a label
  raise "Invalid result", and the table is unchanged in all three cases. The
  identifiers of the first case are those that SQLite can hold, the integers of 64 bits;
  every other integer is the identifier of no row either, and binding it as the
  parameter of the query raises \<^verbatim>\<open>OverflowError\<close>, again whatever the label is, with
  nothing executed.
\<close>

theorem update_meal_stats_checks_record_first:
  "(bindable meal_id \<and> find (\<lambda>r. sint (row_id r) = meal_id) (meals db) = None \<longrightarrow>
      fst (update_meal_stats meal_id result db) = Inl (ValueError (Not_found meal_id)) \<and>
      meals (snd (update_meal_stats meal_id result db)) = meals db) \<and>
   (\<forall>r. find (\<lambda>r. sint (row_id r) = meal_id) (meals db) = Some r \<and> deleted r \<longrightarrow>
      fst (update_meal_stats meal_id result db) = Inl (ValueError (Has_been_deleted meal_id)) \<and>
      meals (snd (update_meal_stats meal_id result db)) = meals db) \<and>
   (\<forall>r. find (\<lambda>r. sint (row_id r) = meal_id) (meals db) = Some r \<and> \<not> deleted r \<and>
        result \<noteq> ''win'' \<and> result \<noteq> ''loss'' \<longrightarrow>
      fst (update_meal_stats meal_id result db) = Inl (ValueError (Invalid_result result)) \<and>
      meals (snd (update_meal_stats meal_id result db)) = meals db) \<and>
   (\<not> bindable meal_id \<longrightarrow>
      find (\<lambda>r. sint (row_id r) = meal_id) (meals db) = None \<and>
      update_meal_stats meal_id result db = (Inl OverflowError, db))"
proof (cases "bindable meal_id")
  case True
  then show ?thesis by (simp add: update_meal_stats_eq)
next
  case False
  then have none: "find (\<lambda>r. sint (row_id r) = meal_id) (meals db) = None"
    using find_bindable [of meal_id "meals db"] by (cases "find (\<lambda>r. sint (row_id r) = meal_id) (meals db)") auto
  from False have "update_meal_stats meal_id result db = (Inl OverflowError, db)"
    by (simp add: update_meal_stats_def execute_unbindable)
  with False none show ?thesis by simp
qed

theorem update_meal_stats_checks_record_first_witness:
  "fst (update_meal_stats 5 ''draw'' kitchen) = Inl (ValueError (Not_found 5)) \<and>
   meals (snd (update_meal_stats 5 ''draw'' kitchen)) = meals kitchen \<and>
   fst (update_meal_stats 3 ''draw'' kitchen) = Inl (ValueError (Has_been_deleted 3)) \<and>
   meals (snd (update_meal_stats 3 ''draw'' kitchen)) = meals kitchen \<and>
   fst (update_meal_stats 1 ''draw'' kitchen) = Inl (ValueError (Invalid_result ''draw'')) \<and>
   meals (snd (update_meal_stats 1 ''draw'' kitchen)) = meals kitchen \<and>
   update_meal_stats (2 ^ 63) ''draw'' kitchen = (Inl OverflowError, kitchen)"
proof -
  have live: "\<not> deleted pasta_row" by (simp add: pasta_row_def)
  have gone: "deleted sushi_row" by (simp add: sushi_row_def)
  have label: "''draw'' \<noteq> ''win'' \<and> ''draw'' \<noteq> ''loss''" by simp
  have large: "\<not> bindable (2 ^ 63)" by (simp add: bindable_def)
  show ?thesis
    using update_meal_stats_checks_record_first [of 5 kitchen "''draw''", THEN conjunct1]
      update_meal_stats_checks_record_first [of 3 kitchen "''draw''", THEN conjunct2,
        THEN conjunct1, THEN spec, of sushi_row]
      update_meal_stats_checks_record_first [of 1 kitchen "''draw''", THEN conjunct2,
        THEN conjunct2, THEN conjunct1, THEN spec, of pasta_row]
      update_meal_stats_checks_record_first [of "2 ^ 63" kitchen "''draw''", THEN conjunct2,
        THEN conjunct2, THEN conjunct2]
      find_kitchen live gone label large bindable_small(5)
    by simp
qed

end
